theory Spec2Isabelle
  imports Complex_Main
begin

section \<open>The browser as the components see it\<close>

text \<open>
  The dashboard is a set of React components. Each handler reads the component's state,
  talks to the backend with \<^verbatim>\<open>fetch\<close> and calls state setters. A handler is modelled as
  a function from the state before to the state after; what it does to the outside
  (requests issued, local storage, callbacks of the parent) is kept in a record that is
  passed along. The answer of the backend to a request is an argument of the handler.

  A JavaScript string is a list of characters; a \<^typ>\<open>char\<close> stands for a code unit
  below 256. Local storage is taken as unbounded (\<^verbatim>\<open>setItem\<close> never raises).
\<close>

datatype js_error = JsError (err_name: string) (err_message: string)

text \<open>\<^verbatim>\<open>Error.prototype.toString\<close>, which a template literal applies to a caught error.\<close>

definition error_toString :: "js_error \<Rightarrow> string" where
  "error_toString e =
     (if err_message e = [] then err_name e
      else if err_name e = [] then err_message e
      else err_name e @ '': '' @ err_message e)"

text \<open>
  \<^verbatim>\<open>response.json()\<close> rejects when the body is not JSON, and resolves to the parsed body
  otherwise. \<^verbatim>\<open>fetch\<close> itself rejects on a transport failure, and resolves to a response
  with its \<^verbatim>\<open>ok\<close> flag (a 2xx status) otherwise.
\<close>

datatype 'a json_body = NotJson js_error | Json 'a

datatype 'a fetch_result = Rejected js_error | Response (ok: bool) (json: "'a json_body")

datatype js_file = File (file_name: string) (file_content: string)

datatype http_method = GET | POST | DELETE

datatype form_value = FileField js_file | TextField string

datatype request_body =
    NoBody
  | FormData "(string \<times> form_value) list"
  | JsonObject "(string \<times> string) list"

record request =
  req_method :: http_method
  req_url :: string
  req_headers :: "(string \<times> string) list"
  req_body :: request_body

subsection \<open>Blank text\<close>

text \<open>
  \<^verbatim>\<open>String.prototype.trim\<close> removes white space and line terminators at both ends. Of
  those, the code units below 256 are tab, line feed, vertical tab, form feed, carriage
  return, space and the no-break space.
\<close>

definition isWhiteSpace :: "char \<Rightarrow> bool" where
  "isWhiteSpace c = (of_char c \<in> {9, 10, 11, 12, 13, 32, 160 :: nat})"

definition trim :: "string \<Rightarrow> string" where
  "trim s = rev (dropWhile isWhiteSpace (rev (dropWhile isWhiteSpace s)))"

subsection \<open>Numbers as text\<close>

text \<open>\<^verbatim>\<open>Number.prototype.toString\<close> on a non-negative integer: its decimal digits.\<close>

definition digit_char :: "nat \<Rightarrow> char" where
  "digit_char d = char_of (48 + d)"

fun toString :: "nat \<Rightarrow> string" where
  "toString n = (if n < 10 then [digit_char n] else toString (n div 10) @ [digit_char (n mod 10)])"

declare toString.simps [simp del]

subsection \<open>Defaults\<close>

text \<open>
  \<^verbatim>\<open>a || d\<close> for an optional string \<^verbatim>\<open>a\<close>: \<^verbatim>\<open>undefined\<close> and the empty string are falsy.
  \<^verbatim>\<open>${a}\<close> in a template literal prints \<^verbatim>\<open>undefined\<close> for a missing one.
\<close>

definition string_or :: "string option \<Rightarrow> string \<Rightarrow> string" where
  "string_or a d = (case a of None \<Rightarrow> d | Some m \<Rightarrow> if m = [] then d else m)"

definition template_string :: "string option \<Rightarrow> string" where
  "template_string a = (case a of None \<Rightarrow> ''undefined'' | Some m \<Rightarrow> m)"

section \<open>The Query Client (QueryInterface.tsx)\<close>

record QueryHistory =
  h_id :: string
  h_question :: string
  h_answer :: string
  h_timestamp :: nat
  h_sources :: "string list option"

text \<open>The fields the component reads from the body of the answer to \<^verbatim>\<open>POST /query/\<close>.\<close>

record QueryResponse =
  r_answer :: string
  r_sources :: "string list option"
  r_error :: "string option"

record QueryState =
  query :: string
  answer :: string
  loading :: bool
  error :: string
  queryHistory :: "QueryHistory list"
  showHistory :: bool
  sources :: "string list"

text \<open>The \<^verbatim>\<open>UploadResponse\<close> interface of FileUpload.tsx.\<close>

record UploadResponse =
  u_filename :: "string option"
  u_file_type :: string
  u_status :: string
  u_url :: "string option"
  u_error :: "string option"

text \<open>
  What the components do to the outside: the requests issued (oldest first), local storage,
  and the calls of the callbacks \<^verbatim>\<open>onQuery\<close> and \<^verbatim>\<open>onUpload\<close> that the parent passes in
  (both shells of the application pass them).
\<close>

record browser =
  requests :: "request list"
  localStorage :: "string \<rightharpoonup> string"
  onQuery_calls :: "QueryResponse list"
  onUpload_calls :: "UploadResponse list"

definition initialQueryState :: QueryState where
  "initialQueryState =
     \<lparr>query = [], answer = [], loading = False, error = [], queryHistory = [],
      showHistory = False, sources = []\<rparr>"

text \<open>
  \<^verbatim>\<open>saveQueryHistory\<close> reads \<^verbatim>\<open>queryHistory\<close> from the closure of the render in which
  \<^verbatim>\<open>handleQuery\<close> was called: the list is an argument. \<^verbatim>\<open>JSON.stringify\<close> is the
  platform's, and an argument too.
\<close>

definition saveQueryHistory ::
  "(QueryHistory list \<Rightarrow> string) \<Rightarrow> QueryHistory list \<Rightarrow> QueryHistory \<Rightarrow>
     browser \<times> QueryState \<Rightarrow> browser \<times> QueryState" where
  "saveQueryHistory stringify closure_history new_query w =
     (let updated = take 20 (new_query # closure_history)
      in (fst w\<lparr>localStorage := (localStorage (fst w))(''queryHistory'' \<mapsto> stringify updated)\<rparr>,
          snd w\<lparr>queryHistory := updated\<rparr>))"

text \<open>The record built after a successful query (the object literal \<^verbatim>\<open>newQuery\<close>).\<close>

definition newQuery :: "nat \<Rightarrow> string \<Rightarrow> QueryResponse \<Rightarrow> nat \<Rightarrow> QueryHistory" where
  "newQuery id_now q data ts_now =
     \<lparr>h_id = toString id_now, h_question = q, h_answer = r_answer data,
      h_timestamp = ts_now, h_sources = r_sources data\<rparr>"

text \<open>What \<^verbatim>\<open>handleQuery\<close> keeps of the render it was called in, across its \<^verbatim>\<open>await\<close>.\<close>

record query_closure =
  c_query :: string
  c_queryHistory :: "QueryHistory list"

definition query_request :: "string \<Rightarrow> request" where
  "query_request q =
     \<lparr>req_method = POST, req_url = ''http://localhost:8000/query/'',
      req_headers = [(''Content-Type'', ''application/json'')],
      req_body = JsonObject [(''question'', q)]\<rparr>"

text \<open>\<^verbatim>\<open>handleQuery\<close> up to its first \<^verbatim>\<open>await\<close>: the guard, the four setters, the request.\<close>

definition handleQuery_begin ::
  "browser \<times> QueryState \<Rightarrow> (browser \<times> QueryState) \<times> query_closure option" where
  "handleQuery_begin w =
     (if trim (query (snd w)) = [] then (w, None)
      else ((fst w\<lparr>requests := requests (fst w) @ [query_request (query (snd w))]\<rparr>,
             snd w\<lparr>loading := True, error := [], answer := [], sources := []\<rparr>),
            Some \<lparr>c_query = query (snd w), c_queryHistory = queryHistory (snd w)\<rparr>))"

definition connect_failed :: string where
  "connect_failed = ''Failed to connect to the server. Please try again.''"

definition query_failed :: string where
  "query_failed = ''An error occurred while processing your question.''"

text \<open>
  \<^verbatim>\<open>handleQuery\<close> from the answer on: \<^verbatim>\<open>id_now\<close> is what \<^verbatim>\<open>Date.now()\<close> reads and
  \<^verbatim>\<open>ts_now\<close> what \<^verbatim>\<open>new Date()\<close> reads. The \<^verbatim>\<open>catch\<close> branch takes a rejected fetch and
  a body that is not JSON; \<^verbatim>\<open>finally\<close> clears the loading flag.
\<close>

definition handleQuery_resume ::
  "(QueryHistory list \<Rightarrow> string) \<Rightarrow> query_closure \<Rightarrow> QueryResponse fetch_result \<Rightarrow>
     nat \<Rightarrow> nat \<Rightarrow> browser \<times> QueryState \<Rightarrow> browser \<times> QueryState" where
  "handleQuery_resume stringify cl resp id_now ts_now w =
     (let w' =
        (case resp of
           Rejected e \<Rightarrow> (fst w, snd w\<lparr>error := connect_failed\<rparr>)
         | Response is_ok b \<Rightarrow>
             (case b of
                NotJson e \<Rightarrow> (fst w, snd w\<lparr>error := connect_failed\<rparr>)
              | Json data \<Rightarrow>
                  if is_ok then
                    (let st1 = snd w\<lparr>answer := r_answer data,
                                     sources := (case r_sources data of None \<Rightarrow> [] | Some s \<Rightarrow> s)\<rparr>;
                         w2 = saveQueryHistory stringify (c_queryHistory cl)
                                (newQuery id_now (c_query cl) data ts_now) (fst w, st1)
                     in (fst w2\<lparr>onQuery_calls := onQuery_calls (fst w2) @ [data]\<rparr>, snd w2))
                  else
                    (fst w, snd w\<lparr>error := string_or (r_error data) query_failed\<rparr>)))
      in (fst w', snd w'\<lparr>loading := False\<rparr>))"

text \<open>One whole run of \<^verbatim>\<open>handleQuery\<close>, with nothing else happening while it waits.\<close>

definition handleQuery ::
  "(QueryHistory list \<Rightarrow> string) \<Rightarrow> QueryResponse fetch_result \<Rightarrow> nat \<Rightarrow> nat \<Rightarrow>
     browser \<times> QueryState \<Rightarrow> browser \<times> QueryState" where
  "handleQuery stringify resp id_now ts_now w =
     (case handleQuery_begin w of
        (w1, None) \<Rightarrow> w1
      | (w1, Some cl) \<Rightarrow> handleQuery_resume stringify cl resp id_now ts_now w1)"

definition handleHistoryClick :: "QueryHistory \<Rightarrow> browser \<times> QueryState \<Rightarrow> browser \<times> QueryState" where
  "handleHistoryClick historyItem w =
     (fst w,
      snd w\<lparr>query := h_question historyItem,
            answer := h_answer historyItem,
            sources := (case h_sources historyItem of None \<Rightarrow> [] | Some s \<Rightarrow> s),
            showHistory := False\<rparr>)"

definition clearHistory :: "browser \<times> QueryState \<Rightarrow> browser \<times> QueryState" where
  "clearHistory w =
     (fst w\<lparr>localStorage := (localStorage (fst w))(''queryHistory'' := None)\<rparr>,
      snd w\<lparr>queryHistory := []\<rparr>)"

subsection \<open>Loading the persisted history\<close>

text \<open>
  Where the source declares the shape of what it reads (\<^verbatim>\<open>QueryHistory\<close>,
  \<^verbatim>\<open>UploadResponse\<close>, \<^verbatim>\<open>FileInfo\<close>) or reads a few fields of an answer, the model has a
  record. Where it takes whatever the parser gives (\<^verbatim>\<open>JSON.parse\<close> of the stored text,
  \<^verbatim>\<open>response.json()\<close> in the market service), the model has a JavaScript value, with
  \<^verbatim>\<open>undefined\<close> for a property that is not there. An object is the list of its own
  properties.
\<close>

datatype jsval =
    JUndefined
  | JNull
  | JBool bool
  | JNum real
  | JStr string
  | JArr "jsval list"
  | JObj "(string \<times> jsval) list"

definition type_error :: js_error where
  "type_error = JsError ''TypeError'' []"

text \<open>\<^verbatim>\<open>xs.map(f)\<close> where \<^verbatim>\<open>f\<close> may throw: the first exception ends the loop.\<close>

fun map_throwing :: "('a \<Rightarrow> js_error + 'b) \<Rightarrow> 'a list \<Rightarrow> js_error + 'b list" where
  "map_throwing f [] = Inr []"
| "map_throwing f (x # xs) =
     (case f x of
        Inl e \<Rightarrow> Inl e
      | Inr y \<Rightarrow> (case map_throwing f xs of Inl e \<Rightarrow> Inl e | Inr ys \<Rightarrow> Inr (y # ys)))"

text \<open>Calling \<^verbatim>\<open>.map\<close> on a parsed value: only an array has it.\<close>

definition array_map :: "(jsval \<Rightarrow> js_error + 'b) \<Rightarrow> jsval \<Rightarrow> js_error + 'b list" where
  "array_map f v = (case v of JArr items \<Rightarrow> map_throwing f items | _ \<Rightarrow> Inl type_error)"

text \<open>
  The arrow function of \<^verbatim>\<open>loadQueryHistory\<close>, \<^verbatim>\<open>{...item, timestamp: new Date(item.timestamp)}\<close>:
  reading \<^verbatim>\<open>item.timestamp\<close> throws on \<^verbatim>\<open>null\<close>. The source takes the object it builds
  for a \<^verbatim>\<open>QueryHistory\<close> without a check (\<^verbatim>\<open>item: any\<close>); that cast is the argument
  \<^verbatim>\<open>revive\<close>.
\<close>

definition revive_item :: "(jsval \<Rightarrow> QueryHistory) \<Rightarrow> jsval \<Rightarrow> js_error + QueryHistory" where
  "revive_item revive item =
     (if item = JNull \<or> item = JUndefined then Inl type_error else Inr (revive item))"

text \<open>
  \<^verbatim>\<open>loadQueryHistory\<close>, with \<^verbatim>\<open>JSON.parse\<close> as the argument \<^verbatim>\<open>parse\<close> (\<open>Inl\<close> is the
  exception it throws). The result is a sum so that an exception that leaves the function
  would show: \<open>Inl\<close> is an exception thrown to the caller.
\<close>

definition loadQueryHistory ::
  "(string \<Rightarrow> js_error + jsval) \<Rightarrow> (jsval \<Rightarrow> QueryHistory) \<Rightarrow>
     browser \<times> QueryState \<Rightarrow> js_error + browser \<times> QueryState" where
  "loadQueryHistory parse revive w =
     (case localStorage (fst w) ''queryHistory'' of
        None \<Rightarrow> Inr w
      | Some saved \<Rightarrow>
          if saved = [] then Inr w
          else
            (case (case parse saved of
                     Inl e \<Rightarrow> Inl e
                   | Inr v \<Rightarrow> array_map (revive_item revive) v) of
               Inr parsed \<Rightarrow> Inr (fst w, snd w\<lparr>queryHistory := parsed\<rparr>)
             | Inl e \<Rightarrow> Inr w))"

text \<open>The effect that runs once, when the component is mounted.\<close>

definition mountQueryInterface ::
  "(string \<Rightarrow> js_error + jsval) \<Rightarrow> (jsval \<Rightarrow> QueryHistory) \<Rightarrow> browser \<Rightarrow>
     js_error + browser \<times> QueryState" where
  "mountQueryInterface parse revive b = loadQueryHistory parse revive (b, initialQueryState)"

subsection \<open>The view and its events\<close>

definition suggestedQuestions :: "string list" where
  "suggestedQuestions =
     [''What are the current gold market trends?'',
      ''How does inflation affect gold prices?'',
      ''What are the best gold trading strategies?'',
      ''When is the best time to buy gold?'',
      ''How do central bank policies impact gold?'',
      ''What factors influence gold volatility?'']"

definition handleSuggestedQuestion :: "string \<Rightarrow> browser \<times> QueryState \<Rightarrow> browser \<times> QueryState" where
  "handleSuggestedQuestion q w = (fst w, snd w\<lparr>query := q\<rparr>)"

text \<open>The \<^verbatim>\<open>disabled\<close> attribute of the Ask button.\<close>

definition ask_disabled :: "QueryState \<Rightarrow> bool" where
  "ask_disabled st = (loading st \<or> trim (query st) = [])"

text \<open>
  What the user and the network can do to a mounted view. \<open>Answered k\<close> is the arrival of
  the answer to the \<open>k\<close>-th request that is still outstanding.
\<close>

datatype query_event =
    Typed string
  | EnterKey
  | AskClick
  | Answered nat "QueryResponse fetch_result" nat nat
  | SuggestedClick nat
  | HistoryToggle
  | HistoryClick nat
  | ClearClick

record query_view =
  v_world :: "browser \<times> QueryState"
  v_in_flight :: "query_closure list"

definition start_query :: "query_view \<Rightarrow> query_view" where
  "start_query v =
     (case handleQuery_begin (v_world v) of
        (w1, None) \<Rightarrow> v\<lparr>v_world := w1\<rparr>
      | (w1, Some cl) \<Rightarrow> v\<lparr>v_world := w1, v_in_flight := v_in_flight v @ [cl]\<rparr>)"

text \<open>
  A disabled button delivers no click; the key handler is
  \<^verbatim>\<open>e.key === 'Enter' && !loading && handleQuery()\<close>; the history list, and the Clear button,
  are rendered with the entries they act on.
\<close>

fun query_step :: "(QueryHistory list \<Rightarrow> string) \<Rightarrow> query_view \<Rightarrow> query_event \<Rightarrow> query_view" where
  "query_step stringify v (Typed s) = v\<lparr>v_world := (fst (v_world v), snd (v_world v)\<lparr>query := s\<rparr>)\<rparr>"
| "query_step stringify v EnterKey =
     (if \<not> loading (snd (v_world v)) then start_query v else v)"
| "query_step stringify v AskClick =
     (if ask_disabled (snd (v_world v)) then v else start_query v)"
| "query_step stringify v (Answered k resp id_now ts_now) =
     (if k < length (v_in_flight v)
      then v\<lparr>v_world := handleQuery_resume stringify (v_in_flight v ! k) resp id_now ts_now (v_world v),
             v_in_flight := take k (v_in_flight v) @ drop (Suc k) (v_in_flight v)\<rparr>
      else v)"
| "query_step stringify v (SuggestedClick i) =
     (if i < length suggestedQuestions \<and> answer (snd (v_world v)) = [] \<and> \<not> loading (snd (v_world v))
      then v\<lparr>v_world := handleSuggestedQuestion (suggestedQuestions ! i) (v_world v)\<rparr>
      else v)"
| "query_step stringify v HistoryToggle =
     v\<lparr>v_world := (fst (v_world v), snd (v_world v)\<lparr>showHistory := \<not> showHistory (snd (v_world v))\<rparr>)\<rparr>"
| "query_step stringify v (HistoryClick i) =
     (if showHistory (snd (v_world v)) \<and> i < length (queryHistory (snd (v_world v)))
      then v\<lparr>v_world := handleHistoryClick (queryHistory (snd (v_world v)) ! i) (v_world v)\<rparr>
      else v)"
| "query_step stringify v ClearClick =
     (if queryHistory (snd (v_world v)) \<noteq> [] then v\<lparr>v_world := clearHistory (v_world v)\<rparr> else v)"

definition initial_query_view :: "browser \<times> QueryState \<Rightarrow> query_view" where
  "initial_query_view w = \<lparr>v_world = w, v_in_flight = []\<rparr>"

section \<open>The query view of the section-based shell (App.tsx)\<close>

datatype app_section = UploadSection | QuerySection | LearningSection

record AppState =
  uploadResult :: "UploadResponse option"
  app_query :: string
  app_answer :: string
  app_loading :: bool
  app_error :: string
  activeSection :: app_section

definition initialAppState :: AppState where
  "initialAppState =
     \<lparr>uploadResult = None, app_query = [], app_answer = [], app_loading = False,
      app_error = [], activeSection = UploadSection\<rparr>"

definition app_query_request :: "string \<Rightarrow> request" where
  "app_query_request q =
     \<lparr>req_method = POST, req_url = ''http://localhost:8000/query'', req_headers = [],
      req_body = FormData [(''question'', TextField q)]\<rparr>"

text \<open>\<^verbatim>\<open>handleQuery\<close> of App.tsx up to its \<^verbatim>\<open>await\<close>; it has no guard.\<close>

definition app_handleQuery_begin :: "browser \<times> AppState \<Rightarrow> browser \<times> AppState" where
  "app_handleQuery_begin w =
     (fst w\<lparr>requests := requests (fst w) @ [app_query_request (app_query (snd w))]\<rparr>,
      snd w\<lparr>app_loading := True, app_error := [], app_answer := []\<rparr>)"

text \<open>From the answer on: \<^verbatim>\<open>err.message || "Unknown error"\<close> in the \<^verbatim>\<open>catch\<close> branch.\<close>

definition app_handleQuery_resume ::
  "QueryResponse fetch_result \<Rightarrow> browser \<times> AppState \<Rightarrow> browser \<times> AppState" where
  "app_handleQuery_resume resp w =
     (let st' =
        (case resp of
           Rejected e \<Rightarrow> snd w\<lparr>app_error := string_or (Some (err_message e)) ''Unknown error''\<rparr>
         | Response is_ok b \<Rightarrow>
             if \<not> is_ok then snd w\<lparr>app_error := ''Network response was not ok''\<rparr>
             else
               (case b of
                  NotJson e \<Rightarrow> snd w\<lparr>app_error := string_or (Some (err_message e)) ''Unknown error''\<rparr>
                | Json data \<Rightarrow> snd w\<lparr>app_answer := r_answer data\<rparr>))
      in (fst w, st'\<lparr>app_loading := False\<rparr>))"

datatype app_event =
    Navigate app_section
  | AppTyped string
  | AppEnterKey
  | AppAskClick
  | AppAnswered nat "QueryResponse fetch_result"

record app_view =
  a_world :: "browser \<times> AppState"
  a_in_flight :: "request list"

definition app_start_query :: "app_view \<Rightarrow> app_view" where
  "app_start_query v =
     v\<lparr>a_world := app_handleQuery_begin (a_world v),
       a_in_flight := a_in_flight v @ [app_query_request (app_query (snd (a_world v)))]\<rparr>"

text \<open>
  The input and the button exist while the query section is shown. The key handler is
  \<^verbatim>\<open>e.key === 'Enter' && handleQuery()\<close>; the button has \<^verbatim>\<open>disabled={loading}\<close>.
\<close>

fun app_step :: "app_view \<Rightarrow> app_event \<Rightarrow> app_view" where
  "app_step v (Navigate s) = v\<lparr>a_world := (fst (a_world v), snd (a_world v)\<lparr>activeSection := s\<rparr>)\<rparr>"
| "app_step v (AppTyped s) =
     (if activeSection (snd (a_world v)) = QuerySection
      then v\<lparr>a_world := (fst (a_world v), snd (a_world v)\<lparr>app_query := s\<rparr>)\<rparr> else v)"
| "app_step v AppEnterKey =
     (if activeSection (snd (a_world v)) = QuerySection then app_start_query v else v)"
| "app_step v AppAskClick =
     (if activeSection (snd (a_world v)) = QuerySection \<and> \<not> app_loading (snd (a_world v))
      then app_start_query v else v)"
| "app_step v (AppAnswered k resp) =
     (if k < length (a_in_flight v)
      then v\<lparr>a_world := app_handleQuery_resume resp (a_world v),
             a_in_flight := take k (a_in_flight v) @ drop (Suc k) (a_in_flight v)\<rparr>
      else v)"

definition initial_app_view :: "browser \<Rightarrow> app_view" where
  "initial_app_view b = \<lparr>a_world = (b, initialAppState), a_in_flight = []\<rparr>"

section \<open>The Upload Client (FileUpload.tsx, the variant with a status line)\<close>

record FileInfo =
  fi_filename :: string
  fi_size :: nat
  fi_processed :: bool
  fi_date_modified :: nat

text \<open>The body of the answer to \<^verbatim>\<open>GET /files/\<close>, of which \<^verbatim>\<open>files\<close> is read.\<close>

record FilesResponse =
  fl_files :: "FileInfo list option"

datatype upload_mode = FileMode | YoutubeMode

record UploadState =
  selectedFile :: "js_file option"
  youtubeUrl :: string
  uploadMode :: upload_mode
  fileType :: string
  uploadStatus :: string
  files :: "FileInfo list"

definition initialUploadState :: UploadState where
  "initialUploadState =
     \<lparr>selectedFile = None, youtubeUrl = [], uploadMode = FileMode, fileType = ''document'',
      uploadStatus = [], files = []\<rparr>"

definition files_request :: request where
  "files_request =
     \<lparr>req_method = GET, req_url = ''http://localhost:8000/files/'', req_headers = [],
      req_body = NoBody\<rparr>"

text \<open>
  \<^verbatim>\<open>fetchFiles\<close>: the registry refresh. It does not look at \<^verbatim>\<open>response.ok\<close>; its
  \<^verbatim>\<open>catch\<close> branch only writes to the console.
\<close>

definition fetchFiles ::
  "FilesResponse fetch_result \<Rightarrow> browser \<times> UploadState \<Rightarrow> browser \<times> UploadState" where
  "fetchFiles files_resp w =
     (let b1 = fst w\<lparr>requests := requests (fst w) @ [files_request]\<rparr>
      in case files_resp of
           Rejected e \<Rightarrow> (b1, snd w)
         | Response is_ok b \<Rightarrow>
             (case b of
                NotJson e \<Rightarrow> (b1, snd w)
              | Json data \<Rightarrow>
                  (b1, snd w\<lparr>files := (case fl_files data of None \<Rightarrow> [] | Some fs \<Rightarrow> fs)\<rparr>)))"

definition handleFileChange :: "js_file option \<Rightarrow> browser \<times> UploadState \<Rightarrow> browser \<times> UploadState" where
  "handleFileChange chosen w =
     (case chosen of None \<Rightarrow> w | Some f \<Rightarrow> (fst w, snd w\<lparr>selectedFile := Some f\<rparr>))"

definition handleYoutubeUrlChange :: "string \<Rightarrow> browser \<times> UploadState \<Rightarrow> browser \<times> UploadState" where
  "handleYoutubeUrlChange v w = (fst w, snd w\<lparr>youtubeUrl := v\<rparr>)"

definition handleFileTypeChange :: "string \<Rightarrow> browser \<times> UploadState \<Rightarrow> browser \<times> UploadState" where
  "handleFileTypeChange v w = (fst w, snd w\<lparr>fileType := v\<rparr>)"

definition upload_request :: "js_file \<Rightarrow> string \<Rightarrow> request" where
  "upload_request f t =
     \<lparr>req_method = POST, req_url = ''http://localhost:8000/upload/'', req_headers = [],
      req_body = FormData [(''file'', FileField f), (''file_type'', TextField t)]\<rparr>"

definition youtube_request :: "string \<Rightarrow> request" where
  "youtube_request u =
     \<lparr>req_method = POST, req_url = ''http://localhost:8000/upload-youtube/'', req_headers = [],
      req_body = FormData [(''url'', TextField u), (''file_type'', TextField ''video'')]\<rparr>"

text \<open>
  The body of the \<^verbatim>\<open>try\<close> block after the request has gone out, which is the same for
  both modes but for the text on success and the field that is cleared. The \<^verbatim>\<open>catch\<close>
  branch takes a rejected fetch and a body that is not JSON.
\<close>

definition upload_outcome ::
  "UploadResponse fetch_result \<Rightarrow> FilesResponse fetch_result \<Rightarrow>
     (UploadResponse \<Rightarrow> UploadState \<Rightarrow> UploadState) \<Rightarrow>
     browser \<times> UploadState \<Rightarrow> browser \<times> UploadState" where
  "upload_outcome resp files_resp on_ok w =
     (case resp of
        Rejected e \<Rightarrow> (fst w, snd w\<lparr>uploadStatus := ''Upload failed: '' @ error_toString e\<rparr>)
      | Response is_ok b \<Rightarrow>
          (case b of
             NotJson e \<Rightarrow> (fst w, snd w\<lparr>uploadStatus := ''Upload failed: '' @ error_toString e\<rparr>)
           | Json result \<Rightarrow>
               if is_ok then
                 (let w2 = fetchFiles files_resp (fst w, on_ok result (snd w))
                  in (fst w2\<lparr>onUpload_calls := onUpload_calls (fst w2) @ [result]\<rparr>, snd w2))
               else
                 (fst w, snd w\<lparr>uploadStatus :=
                     ''Upload failed: '' @ string_or (u_error result) ''Unknown error''\<rparr>)))"

text \<open>
  \<^verbatim>\<open>handleUpload\<close>. In file mode the first guard has excluded \<^verbatim>\<open>null\<close> where the file is
  read (\<^verbatim>\<open>selectedFile!\<close>).
\<close>

definition handleUpload ::
  "UploadResponse fetch_result \<Rightarrow> FilesResponse fetch_result \<Rightarrow>
     browser \<times> UploadState \<Rightarrow> browser \<times> UploadState" where
  "handleUpload resp files_resp w =
     (if uploadMode (snd w) = FileMode \<and> selectedFile (snd w) = None
      then (fst w, snd w\<lparr>uploadStatus := ''Please select a file first.''\<rparr>)
      else if uploadMode (snd w) = YoutubeMode \<and> trim (youtubeUrl (snd w)) = []
      then (fst w, snd w\<lparr>uploadStatus := ''Please enter a YouTube URL.''\<rparr>)
      else
        (let st1 = snd w\<lparr>uploadStatus := ''Uploading...''\<rparr>
         in if uploadMode (snd w) = FileMode then
              upload_outcome resp files_resp
                (\<lambda>result st. st\<lparr>uploadStatus :=
                                   ''File uploaded successfully: '' @ template_string (u_filename result),
                                 selectedFile := None\<rparr>)
                (fst w\<lparr>requests := requests (fst w) @
                     [upload_request (the (selectedFile (snd w))) (fileType (snd w))]\<rparr>, st1)
            else
              upload_outcome resp files_resp
                (\<lambda>result st. st\<lparr>uploadStatus :=
                                   ''YouTube video processing started: '' @ template_string (u_url result),
                                 youtubeUrl := []\<rparr>)
                (fst w\<lparr>requests := requests (fst w) @ [youtube_request (youtubeUrl (snd w))]\<rparr>, st1)))"

subsection \<open>The controls\<close>

text \<open>The options of the content-type select, in the order of the source.\<close>

definition fileTypeOptions :: "string list" where
  "fileTypeOptions = [''document'', ''image'', ''video'', ''audio'']"

text \<open>The \<^verbatim>\<open>disabled\<close> attribute of the upload button.\<close>

definition upload_disabled :: "UploadState \<Rightarrow> bool" where
  "upload_disabled st =
     (if uploadMode st = FileMode then selectedFile st = None else trim (youtubeUrl st) = [])"

text \<open>
  The file input and the select are rendered in file mode, the URL input in URL mode. The
  select delivers the value of one of its options; a disabled button delivers no click.
\<close>

datatype upload_event =
    ModeChange upload_mode
  | FileChange "js_file option"
  | YoutubeUrlChange string
  | FileTypeChange nat
  | UploadClick "UploadResponse fetch_result" "FilesResponse fetch_result"

fun upload_step :: "browser \<times> UploadState \<Rightarrow> upload_event \<Rightarrow> browser \<times> UploadState" where
  "upload_step w (ModeChange m) = (fst w, snd w\<lparr>uploadMode := m\<rparr>)"
| "upload_step w (FileChange chosen) =
     (if uploadMode (snd w) = FileMode then handleFileChange chosen w else w)"
| "upload_step w (YoutubeUrlChange v) =
     (if uploadMode (snd w) = YoutubeMode then handleYoutubeUrlChange v w else w)"
| "upload_step w (FileTypeChange i) =
     (if uploadMode (snd w) = FileMode \<and> i < length fileTypeOptions
      then handleFileTypeChange (fileTypeOptions ! i) w else w)"
| "upload_step w (UploadClick resp files_resp) =
     (if upload_disabled (snd w) then w else handleUpload resp files_resp w)"

section \<open>The market service (marketService.ts)\<close>

text \<open>
  Reading a property: it throws on \<^verbatim>\<open>null\<close> and \<^verbatim>\<open>undefined\<close>, gives the value of an own
  property of an object, and \<^verbatim>\<open>undefined\<close> otherwise (none of the names read below is a
  property that strings, numbers, booleans or arrays inherit).
\<close>

fun get_prop :: "jsval \<Rightarrow> string \<Rightarrow> js_error + jsval" where
  "get_prop JUndefined k = Inl type_error"
| "get_prop JNull k = Inl type_error"
| "get_prop (JObj props) k = Inr (case map_of props k of None \<Rightarrow> JUndefined | Some v \<Rightarrow> v)"
| "get_prop v k = Inr JUndefined"

fun truthy :: "jsval \<Rightarrow> bool" where
  "truthy JUndefined = False"
| "truthy JNull = False"
| "truthy (JBool b) = b"
| "truthy (JNum n) = (n \<noteq> 0)"
| "truthy (JStr s) = (s \<noteq> [])"
| "truthy (JArr xs) = True"
| "truthy (JObj props) = True"

text \<open>\<^verbatim>\<open>a || d\<close>.\<close>

definition js_or :: "jsval \<Rightarrow> jsval \<Rightarrow> jsval" where
  "js_or a d = (if truthy a then a else d)"

definition baseUrl :: string where
  "baseUrl = ''http://localhost:8000''"

definition get_request :: "string \<Rightarrow> request" where
  "get_request u = \<lparr>req_method = GET, req_url = u, req_headers = [], req_body = NoBody\<rparr>"

text \<open>
  A method of the service issues its request and, given the answer, resolves (\<open>Inr\<close>) or
  throws (\<open>Inl\<close>). The ones that end with \<^verbatim>\<open>return response.json()\<close> throw what that
  throws.
\<close>

definition getLiveData ::
  "string \<Rightarrow> jsval fetch_result \<Rightarrow> browser \<Rightarrow> browser \<times> (js_error + jsval)" where
  "getLiveData symbol resp b =
     (b\<lparr>requests := requests b @ [get_request (baseUrl @ ''/market/live?symbol='' @ symbol)]\<rparr>,
      case resp of
        Rejected e \<Rightarrow> Inl e
      | Response is_ok body \<Rightarrow>
          if \<not> is_ok then Inl (JsError ''Error'' ''Failed to fetch market data'')
          else (case body of NotJson e \<Rightarrow> Inl e | Json v \<Rightarrow> Inr v))"

definition getHistoricalData ::
  "string \<Rightarrow> string \<Rightarrow> string \<Rightarrow> jsval fetch_result \<Rightarrow> browser \<Rightarrow> browser \<times> (js_error + jsval)" where
  "getHistoricalData symbol period interval resp b =
     (b\<lparr>requests := requests b @
          [get_request (baseUrl @ ''/market/history?symbol='' @ symbol @ ''&period='' @ period
                          @ ''&interval='' @ interval)]\<rparr>,
      case resp of
        Rejected e \<Rightarrow> Inl e
      | Response is_ok body \<Rightarrow>
          if \<not> is_ok then Inl (JsError ''Error'' ''Failed to fetch historical data'')
          else
            (case body of
               NotJson e \<Rightarrow> Inl e
             | Json data \<Rightarrow>
                 (case get_prop data ''data'' of
                    Inl e \<Rightarrow> Inl e
                  | Inr v \<Rightarrow> Inr (js_or v (JArr [])))))"

definition getPredictions ::
  "string \<Rightarrow> nat \<Rightarrow> jsval fetch_result \<Rightarrow> browser \<Rightarrow> browser \<times> (js_error + jsval)" where
  "getPredictions symbol numPredictions resp b =
     (b\<lparr>requests := requests b @
          [get_request (baseUrl @ ''/market/predict?symbol='' @ symbol @ ''&num_predictions=''
                          @ toString numPredictions)]\<rparr>,
      case resp of
        Rejected e \<Rightarrow> Inl e
      | Response is_ok body \<Rightarrow>
          if \<not> is_ok then Inl (JsError ''Error'' ''Failed to fetch predictions'')
          else
            (case body of
               NotJson e \<Rightarrow> Inl e
             | Json data \<Rightarrow>
                 (case get_prop data ''predictions'' of
                    Inl e \<Rightarrow> Inl e
                  | Inr v \<Rightarrow> Inr (js_or v (JArr [])))))"

definition getMarketStatus ::
  "jsval fetch_result \<Rightarrow> browser \<Rightarrow> browser \<times> (js_error + jsval)" where
  "getMarketStatus resp b =
     (b\<lparr>requests := requests b @ [get_request (baseUrl @ ''/market/status'')]\<rparr>,
      case resp of
        Rejected e \<Rightarrow> Inl e
      | Response is_ok body \<Rightarrow>
          if \<not> is_ok then Inl (JsError ''Error'' ''Failed to fetch market status'')
          else (case body of NotJson e \<Rightarrow> Inl e | Json v \<Rightarrow> Inr v))"

section \<open>The Market Panel (TradingChart)\<close>

record ChartState =
  lastUpdate :: string
  currentPrice :: jsval
  marketStatus :: jsval
  isLoading :: bool
  chart_error :: "string option"

definition initialChartState :: ChartState where
  "initialChartState =
     \<lparr>lastUpdate = [], currentPrice = JNum 0, marketStatus = JStr ''Unknown'',
      isLoading = False, chart_error = None\<rparr>"

text \<open>
  \<^verbatim>\<open>Promise.all\<close> of two calls that have both been started: it resolves to both results, or
  rejects with a rejection of one of them (which of two is a matter of timing; the caller
  below does not look at it).
\<close>

definition promise_all :: "js_error + 'a \<Rightarrow> js_error + 'b \<Rightarrow> js_error + 'a \<times> 'b" where
  "promise_all r1 r2 =
     (case r1 of
        Inl e \<Rightarrow> Inl e
      | Inr a \<Rightarrow> (case r2 of Inl e \<Rightarrow> Inl e | Inr b \<Rightarrow> Inr (a, b)))"

text \<open>
  The body of the \<^verbatim>\<open>try\<close> block once \<^verbatim>\<open>Promise.all\<close> has resolved: the setters run in
  order, and a property read that throws leaves the setters before it done. The result is
  the state and the exception, if any.
\<close>

definition show_market_data :: "jsval \<Rightarrow> jsval \<Rightarrow> string \<Rightarrow> ChartState \<Rightarrow> ChartState \<times> js_error option" where
  "show_market_data status liveData time_now st =
     (case get_prop status ''status'' of
        Inl e \<Rightarrow> (st, Some e)
      | Inr s \<Rightarrow>
          (let st2 = st\<lparr>marketStatus := js_or s (JStr ''Unknown'')\<rparr>
           in case get_prop liveData ''current_price'' of
                Inl e \<Rightarrow> (st2, Some e)
              | Inr p \<Rightarrow> (st2\<lparr>currentPrice := js_or p (JNum 0), lastUpdate := time_now\<rparr>, None)))"

text \<open>
  \<^verbatim>\<open>loadMarketData\<close>; \<^verbatim>\<open>time_now\<close> is what \<^verbatim>\<open>new Date().toLocaleTimeString()\<close> gives.
\<close>

definition loadMarketData ::
  "string \<Rightarrow> jsval fetch_result \<Rightarrow> jsval fetch_result \<Rightarrow> string \<Rightarrow>
     browser \<times> ChartState \<Rightarrow> browser \<times> ChartState" where
  "loadMarketData symbol status_resp live_resp time_now w =
     (let st1 = snd w\<lparr>isLoading := True, chart_error := None\<rparr>;
          c1 = getMarketStatus status_resp (fst w);
          c2 = getLiveData symbol live_resp (fst c1);
          tried = (case promise_all (snd c1) (snd c2) of
                     Inl e \<Rightarrow> (st1, Some e)
                   | Inr (status, liveData) \<Rightarrow> show_market_data status liveData time_now st1);
          st3 = (case snd tried of
                   None \<Rightarrow> fst tried
                 | Some e \<Rightarrow> fst tried\<lparr>chart_error := Some ''Failed to load market data''\<rparr>)
      in (fst c2, st3\<lparr>isLoading := False\<rparr>))"

section \<open>Runs used to state the properties\<close>

text \<open>
  A request fails when the transport fails or the status is not 2xx.
\<close>

definition is_failure :: "'a fetch_result \<Rightarrow> bool" where
  "is_failure r = (case r of Rejected e \<Rightarrow> True | Response is_ok b \<Rightarrow> \<not> is_ok)"

text \<open>
  One successful query with nothing else happening while it waits: the user types a
  question and asks, the backend answers 2xx with the JSON object \<open>s_data\<close>, and the clock
  reads \<open>s_id_now\<close> and \<open>s_ts_now\<close> when the record is built.
\<close>

record successful_ask =
  s_question :: string
  s_data :: QueryResponse
  s_id_now :: nat
  s_ts_now :: nat

definition asked_record :: "successful_ask \<Rightarrow> QueryHistory" where
  "asked_record a = newQuery (s_id_now a) (s_question a) (s_data a) (s_ts_now a)"

definition ask ::
  "(QueryHistory list \<Rightarrow> string) \<Rightarrow> browser \<times> QueryState \<Rightarrow> successful_ask \<Rightarrow>
     browser \<times> QueryState" where
  "ask stringify w a =
     handleQuery stringify (Response True (Json (s_data a))) (s_id_now a) (s_ts_now a)
       (fst w, snd w\<lparr>query := s_question a\<rparr>)"

definition demo_ask :: "nat \<Rightarrow> successful_ask" where
  "demo_ask n =
     \<lparr>s_question = ''gold?'', s_data = \<lparr>r_answer = ''up'', r_sources = None, r_error = None\<rparr>,
      s_id_now = n, s_ts_now = n\<rparr>"

definition empty_browser :: browser where
  "empty_browser = \<lparr>requests = [], localStorage = Map.empty, onQuery_calls = [], onUpload_calls = []\<rparr>"

text \<open>
  The inputs that the upload form takes for blank: no file in file mode, a URL of white
  space only in URL mode.
\<close>

definition blank_upload :: "UploadState \<Rightarrow> bool" where
  "blank_upload st =
     ((uploadMode st = FileMode \<and> selectedFile st = None) \<or>
      (uploadMode st = YoutubeMode \<and> trim (youtubeUrl st) = []))"

text \<open>The text of the failure that \<^verbatim>\<open>handleUpload\<close> puts after \<^verbatim>\<open>Upload failed:\<close>.\<close>

definition upload_failure_text :: "UploadResponse fetch_result \<Rightarrow> string" where
  "upload_failure_text resp =
     (case resp of
        Rejected e \<Rightarrow> error_toString e
      | Response is_ok b \<Rightarrow>
          (case b of NotJson e \<Rightarrow> error_toString e
                   | Json result \<Rightarrow> string_or (u_error result) ''Unknown error''))"

text \<open>
  The content-type tag that a request carries (its form field \<^verbatim>\<open>file_type\<close>), and what
  the status-line variant may send to each of the two upload endpoints.
\<close>

definition sent_tag :: "request \<Rightarrow> string option" where
  "sent_tag r =
     (case req_body r of
        FormData entries \<Rightarrow>
          (case map_of entries ''file_type'' of Some (TextField v) \<Rightarrow> Some v | _ \<Rightarrow> None)
      | _ \<Rightarrow> None)"

definition tag_ok :: "request \<Rightarrow> bool" where
  "tag_ok r =
     (if req_url r = ''http://localhost:8000/upload/'' then sent_tag r \<in> Some ` set fileTypeOptions
      else if req_url r = ''http://localhost:8000/upload-youtube/'' then sent_tag r = Some ''video''
      else True)"

text \<open>A call of the market service has failed when it throws.\<close>

definition call_failed :: "js_error + 'a \<Rightarrow> bool" where
  "call_failed r = (case r of Inl e \<Rightarrow> True | Inr v \<Rightarrow> False)"

text \<open>
  At most one query is outstanding, and the loading flag is set while one is.
\<close>

definition one_in_flight :: "query_view \<Rightarrow> bool" where
  "one_in_flight v =
     (length (v_in_flight v) \<le> 1 \<and> (v_in_flight v \<noteq> [] \<longrightarrow> loading (snd (v_world v))))"

text \<open>
  The events of one successful query on a view with nothing outstanding: the question is
  typed, Enter is pressed, the answer arrives. On such a view their effect is that of
  \<open>ask\<close>.
\<close>

definition ask_events :: "successful_ask \<Rightarrow> query_event list" where
  "ask_events a =
     [Typed (s_question a), EnterKey,
      Answered 0 (Response True (Json (s_data a))) (s_id_now a) (s_ts_now a)]"

text \<open>
  A run of events in which Clear History is never clicked while a query is outstanding.
\<close>

fun calm_run :: "(QueryHistory list \<Rightarrow> string) \<Rightarrow> query_view \<Rightarrow> query_event list \<Rightarrow> bool" where
  "calm_run stringify v [] = True"
| "calm_run stringify v (ev # evs) =
     (\<not> (ev = ClearClick \<and> v_in_flight v \<noteq> []) \<and> calm_run stringify (query_step stringify v ev) evs)"

text \<open>
  Every outstanding query has captured the history that the view holds now.
\<close>

definition closures_current :: "query_view \<Rightarrow> bool" where
  "closures_current v =
     list_all (\<lambda>cl. c_queryHistory cl = queryHistory (snd (v_world v))) (v_in_flight v)"

text \<open>
  The status line is empty or starts like one of the texts that an upload that was sent
  writes (\<^verbatim>\<open>Uploading...\<close>, \<^verbatim>\<open>Upload failed\<close>, \<^verbatim>\<open>File uploaded\<close>, \<^verbatim>\<open>YouTube video\<close>).
\<close>

definition status_shape :: "UploadState \<Rightarrow> bool" where
  "status_shape st = (take 1 (uploadStatus st) \<in> {[], ''U'', ''F'', ''Y''})"

text \<open>Concrete values on which the properties below are tried.\<close>

definition demo_item :: QueryHistory where
  "demo_item = \<lparr>h_id = ''17'', h_question = ''gold?'', h_answer = ''up'',
                 h_timestamp = 17, h_sources = Some [''babypips.com'']\<rparr>"

definition demo_state :: QueryState where
  "demo_state = initialQueryState\<lparr>query := ''gold?'', queryHistory := [demo_item]\<rparr>"

definition demo_refusal :: "QueryResponse fetch_result" where
  "demo_refusal = Response False (Json \<lparr>r_answer = [], r_sources = None, r_error = Some ''no index''\<rparr>)"

definition demo_parse :: "string \<Rightarrow> js_error + jsval" where
  "demo_parse s = (if s = ''[]'' then Inr (JArr []) else Inl (JsError ''SyntaxError'' []))"

definition demo_revive :: "jsval \<Rightarrow> QueryHistory" where
  "demo_revive v = demo_item"

definition broken_store :: browser where
  "broken_store = empty_browser\<lparr>localStorage := [''queryHistory'' \<mapsto> ''{bad'']\<rparr>"

definition demo_file :: js_file where
  "demo_file = File ''chart1.png'' ''PNG''"

definition demo_upload_refusal :: "UploadResponse fetch_result" where
  "demo_upload_refusal =
     Response False (Json \<lparr>u_filename = None, u_file_type = ''image'', u_status = ''error'',
                            u_url = None, u_error = Some ''too large''\<rparr>)"

definition demo_files_answer :: "FilesResponse fetch_result" where
  "demo_files_answer =
     Response True (Json \<lparr>fl_files = Some [\<lparr>fi_filename = ''chart1.png'', fi_size = 3,
                                              fi_processed = False, fi_date_modified = 0\<rparr>]\<rparr>)"

definition demo_upload_state :: UploadState where
  "demo_upload_state = initialUploadState\<lparr>selectedFile := Some demo_file, fileType := ''image''\<rparr>"

definition demo_upload_ack :: "UploadResponse fetch_result" where
  "demo_upload_ack =
     Response True (Json \<lparr>u_filename = Some ''chart1.png'', u_file_type = ''audio'', u_status = ''ok'',
                           u_url = None, u_error = None\<rparr>)"

definition demo_upload_events :: "upload_event list" where
  "demo_upload_events =
     [FileChange (Some demo_file), FileTypeChange 3, UploadClick demo_upload_ack demo_files_answer,
      ModeChange YoutubeMode, YoutubeUrlChange ''https://youtu.be/x'',
      UploadClick demo_upload_ack demo_files_answer]"

definition blank_query_view :: query_view where
  "blank_query_view =
     initial_query_view (empty_browser, initialQueryState\<lparr>query := ''   ''\<rparr>)"

definition blank_url_state :: UploadState where
  "blank_url_state = initialUploadState\<lparr>uploadMode := YoutubeMode, youtubeUrl := '' ''\<rparr>"

definition demo_status_answer :: "jsval fetch_result" where
  "demo_status_answer =
     Response True (Json (JObj [(''status'', JStr ''open''), (''market_open'', JBool True),
                                (''last_update'', JStr ''10:00'')]))"

definition demo_live_refusal :: "jsval fetch_result" where
  "demo_live_refusal = Response False (Json (JObj [(''detail'', JStr ''no feed'')]))"

definition demo_chart_state :: ChartState where
  "demo_chart_state =
     \<lparr>lastUpdate = ''09:59:30'', currentPrice = JNum 2350, marketStatus = JStr ''closed'',
      isLoading = False, chart_error = None\<rparr>"

definition demo_answer :: "QueryResponse fetch_result" where
  "demo_answer = Response True (Json \<lparr>r_answer = ''up'', r_sources = None, r_error = None\<rparr>)"

definition demo_history_view :: query_view where
  "demo_history_view = initial_query_view (empty_browser, initialQueryState\<lparr>queryHistory := [demo_item]\<rparr>)"

definition demo_calm_events :: "query_event list" where
  "demo_calm_events = [Typed ''gold?'', EnterKey, Typed ''silver?'', HistoryToggle]"

section \<open>Properties of the Query Client\<close>

subsection \<open>Decimal text is injective\<close>

lemma digit_char_inj: "a < 10 \<Longrightarrow> b < 10 \<Longrightarrow> digit_char a = digit_char b \<Longrightarrow> a = b"
proof -
  assume a: "a < 10" and b: "b < 10" and e: "digit_char a = digit_char b"
  from e have "of_char (digit_char a) = (of_char (digit_char b) :: nat)" by simp
  with a b show ?thesis by (simp add: digit_char_def)
qed

lemma toString_nonempty: "toString n \<noteq> []"
  by (subst toString.simps) simp

lemma toString_inj: "toString m = toString n \<Longrightarrow> m = n"
proof (induction m arbitrary: n rule: toString.induct)
  case (1 m)
  show ?case
  proof (cases "m < 10")
    case True
    note m = this
    show ?thesis
    proof (cases "n < 10")
      case True
      with m 1(2) show ?thesis
        by (simp add: toString.simps[of m] toString.simps[of n] digit_char_inj)
    next
      case False
      with m 1(2) toString_nonempty[of "n div 10"] show ?thesis
        by (simp add: toString.simps[of m] toString.simps[of n])
    qed
  next
    case False
    note m = this
    show ?thesis
    proof (cases "n < 10")
      case True
      with m 1(2) toString_nonempty[of "m div 10"] show ?thesis
        by (simp add: toString.simps[of m] toString.simps[of n])
    next
      case False
      with m 1(2) have e: "toString (m div 10) = toString (n div 10)"
        and d: "digit_char (m mod 10) = digit_char (n mod 10)"
        by (simp_all add: toString.simps[of m] toString.simps[of n])
      from 1(1)[OF m e] have "m div 10 = n div 10" .
      moreover from d have "m mod 10 = n mod 10" by (simp add: digit_char_inj)
      ultimately show ?thesis by (metis div_mult_mod_eq)
    qed
  qed
qed

subsection \<open>The history after successful queries\<close>

lemma take_cons_take: "take n (x # take n xs) = take n (x # xs)"
  by (cases n) simp_all

lemma take_cons_cong: "take n xs = take n ys \<Longrightarrow> take n (x # xs) = take n (x # ys)"
  by (metis take_cons_take)

lemma handleQuery_success_history:
  "trim (query (snd w)) \<noteq> [] \<Longrightarrow>
   queryHistory (snd (handleQuery stringify (Response True (Json data)) i t w))
     = take 20 (newQuery i (query (snd w)) data t # queryHistory (snd w))"
  by (simp add: handleQuery_def handleQuery_begin_def handleQuery_resume_def
      saveQueryHistory_def Let_def)

lemma handleQuery_success_storage:
  "trim (query (snd w)) \<noteq> [] \<Longrightarrow>
   localStorage (fst (handleQuery stringify (Response True (Json data)) i t w)) ''queryHistory''
     = Some (stringify (queryHistory (snd (handleQuery stringify (Response True (Json data)) i t w))))"
  by (simp add: handleQuery_def handleQuery_begin_def handleQuery_resume_def
      saveQueryHistory_def Let_def)

lemma ask_history:
  "trim (s_question a) \<noteq> [] \<Longrightarrow>
   queryHistory (snd (ask stringify w a)) = take 20 (asked_record a # queryHistory (snd w))"
  by (simp add: ask_def handleQuery_success_history asked_record_def)

lemma ask_storage:
  "trim (s_question a) \<noteq> [] \<Longrightarrow>
   localStorage (fst (ask stringify w a)) ''queryHistory''
     = Some (stringify (queryHistory (snd (ask stringify w a))))"
  by (simp add: ask_def handleQuery_success_storage)

lemma asks_history_take:
  "\<forall>a \<in> set as. trim (s_question a) \<noteq> [] \<Longrightarrow>
   take 20 (queryHistory (snd (foldl (ask stringify) w as)))
     = take 20 (rev (map asked_record as) @ queryHistory (snd w))"
proof (induction as rule: rev_induct)
  case Nil
  then show ?case by simp
next
  case (snoc a as)
  let ?w = "foldl (ask stringify) w as"
  from snoc have ih: "take 20 (queryHistory (snd ?w))
      = take 20 (rev (map asked_record as) @ queryHistory (snd w))" by simp
  from snoc.prems have "queryHistory (snd (ask stringify ?w a))
      = take 20 (asked_record a # queryHistory (snd ?w))"
    by (simp add: ask_history)
  then have "take 20 (queryHistory (snd (ask stringify ?w a)))
      = take 20 (asked_record a # queryHistory (snd ?w))"
    by simp
  also have "\<dots> = take 20 (asked_record a # rev (map asked_record as) @ queryHistory (snd w))"
    using ih by (rule take_cons_cong)
  finally show ?case by simp
qed

lemma asks_length:
  "\<forall>a \<in> set as. trim (s_question a) \<noteq> [] \<Longrightarrow> as \<noteq> [] \<Longrightarrow>
   length (queryHistory (snd (foldl (ask stringify) w as))) \<le> 20"
proof (induction as rule: rev_induct)
  case Nil
  then show ?case by simp
next
  case (snoc a as)
  then show ?case by (simp add: ask_history)
qed

lemma asks_storage:
  "\<forall>a \<in> set as. trim (s_question a) \<noteq> [] \<Longrightarrow> as \<noteq> [] \<Longrightarrow>
   localStorage (fst (foldl (ask stringify) w as)) ''queryHistory''
     = Some (stringify (queryHistory (snd (foldl (ask stringify) w as))))"
proof (induction as rule: rev_induct)
  case Nil
  then show ?case by simp
next
  case (snoc a as)
  then show ?case by (simp add: ask_storage)
qed

subsection \<open>A failed query\<close>

text \<open>
  C4. When a query that was sent fails (the transport fails, or the status is not 2xx), an
  error text that is not empty is shown (the server's \<^verbatim>\<open>error\<close> field, or a fixed text),
  and the history and local storage are what they were: no record is added, nothing is
  cut, nothing is written.
\<close>

theorem failed_query_keeps_history:
  "trim (query (snd w)) \<noteq> [] \<Longrightarrow> is_failure resp \<Longrightarrow>
   error (snd (handleQuery stringify resp i t w)) \<noteq> [] \<and>
   error (snd (handleQuery stringify resp i t w)) =
     (case resp of
        Rejected e \<Rightarrow> connect_failed
      | Response is_ok b \<Rightarrow>
          (case b of NotJson e \<Rightarrow> connect_failed | Json data \<Rightarrow> string_or (r_error data) query_failed)) \<and>
   queryHistory (snd (handleQuery stringify resp i t w)) = queryHistory (snd w) \<and>
   localStorage (fst (handleQuery stringify resp i t w)) = localStorage (fst w) \<and>
   \<not> loading (snd (handleQuery stringify resp i t w))"
  by (auto simp: handleQuery_def handleQuery_begin_def handleQuery_resume_def is_failure_def Let_def
      connect_failed_def query_failed_def string_or_def
      split: fetch_result.splits json_body.splits option.splits)

theorem failed_query_keeps_history_witness:
  "trim (query (snd (empty_browser, demo_state))) \<noteq> [] \<and> is_failure demo_refusal \<and>
   error (snd (handleQuery (\<lambda>h. []) demo_refusal 1 1 (empty_browser, demo_state))) = ''no index'' \<and>
   queryHistory (snd (handleQuery (\<lambda>h. []) demo_refusal 1 1 (empty_browser, demo_state))) = [demo_item] \<and>
   localStorage (fst (handleQuery (\<lambda>h. []) demo_refusal 1 1 (empty_browser, demo_state))) ''queryHistory'' = None"
proof -
  have h1: "trim (query (snd (empty_browser, demo_state))) \<noteq> []"
    by (simp add: demo_state_def trim_def isWhiteSpace_def)
  have h2: "is_failure demo_refusal"
    by (simp add: is_failure_def demo_refusal_def)
  show ?thesis
    using h1 h2 failed_query_keeps_history [OF h1 h2, of "\<lambda>h. []" 1 1]
    by (simp add: demo_refusal_def string_or_def demo_state_def empty_browser_def)
qed

subsection \<open>Selecting an entry of the history\<close>

text \<open>
  C7. Selecting an entry of the history puts its question, its answer and its sources (none
  when the entry has no sources) into the view, and does nothing to the outside: no
  request is issued. An entry is a whole cached result: the entry that a successful query
  puts first in the history shows, when selected, the answer and the sources that the
  query showed.
\<close>

theorem history_click_loads_cached_result:
  "item \<in> set (queryHistory (snd w)) \<Longrightarrow>
   query (snd (handleHistoryClick item w)) = h_question item \<and>
   answer (snd (handleHistoryClick item w)) = h_answer item \<and>
   sources (snd (handleHistoryClick item w)) = (case h_sources item of None \<Rightarrow> [] | Some s \<Rightarrow> s) \<and>
   fst (handleHistoryClick item w) = fst w \<and>
   requests (fst (handleHistoryClick item w)) = requests (fst w) \<and>
   (trim (s_question a) \<noteq> [] \<longrightarrow>
      hd (queryHistory (snd (ask stringify w a))) = asked_record a \<and>
      answer (snd (handleHistoryClick (asked_record a) w)) = answer (snd (ask stringify w a)) \<and>
      sources (snd (handleHistoryClick (asked_record a) w)) = sources (snd (ask stringify w a)) \<and>
      query (snd (handleHistoryClick (asked_record a) w)) = s_question a)"
  by (simp add: handleHistoryClick_def ask_def handleQuery_def handleQuery_begin_def
      handleQuery_resume_def saveQueryHistory_def Let_def asked_record_def newQuery_def)

theorem history_click_loads_cached_result_witness:
  "demo_item \<in> set (queryHistory (snd (empty_browser, initialQueryState\<lparr>queryHistory := [demo_item]\<rparr>))) \<and>
   query (snd (handleHistoryClick demo_item (empty_browser, initialQueryState\<lparr>queryHistory := [demo_item]\<rparr>))) = ''gold?'' \<and>
   answer (snd (handleHistoryClick demo_item (empty_browser, initialQueryState\<lparr>queryHistory := [demo_item]\<rparr>))) = ''up'' \<and>
   sources (snd (handleHistoryClick demo_item (empty_browser, initialQueryState\<lparr>queryHistory := [demo_item]\<rparr>))) = [''babypips.com''] \<and>
   requests (fst (handleHistoryClick demo_item (empty_browser, initialQueryState\<lparr>queryHistory := [demo_item]\<rparr>))) = []"
proof -
  have h: "demo_item \<in> set (queryHistory (snd (empty_browser, initialQueryState\<lparr>queryHistory := [demo_item]\<rparr>)))"
    by simp
  show ?thesis
    using h history_click_loads_cached_result [OF h, of "demo_ask 1" "\<lambda>h. []"]
    by (simp add: demo_item_def empty_browser_def)
qed

subsection \<open>Loading the persisted history\<close>

lemma load_absent:
  "localStorage (fst w) ''queryHistory'' = None \<Longrightarrow> loadQueryHistory parse revive w = Inr w"
  by (simp add: loadQueryHistory_def)

lemma load_invalid:
  "localStorage (fst w) ''queryHistory'' = Some s \<Longrightarrow> parse s = Inl e \<Longrightarrow>
   loadQueryHistory parse revive w = Inr w"
  by (simp add: loadQueryHistory_def)

lemma load_cases:
  "loadQueryHistory parse revive w = Inr w \<or>
   (\<exists>s items parsed. localStorage (fst w) ''queryHistory'' = Some s \<and> parse s = Inr (JArr items) \<and>
      map_throwing (revive_item revive) items = Inr parsed \<and>
      loadQueryHistory parse revive w = Inr (fst w, snd w\<lparr>queryHistory := parsed\<rparr>))"
proof (cases "localStorage (fst w) ''queryHistory''")
  case None
  then show ?thesis by (simp add: load_absent)
next
  case (Some s)
  show ?thesis
  proof (cases "parse s")
    case (Inl e)
    with Some show ?thesis by (simp add: load_invalid)
  next
    case (Inr v)
    show ?thesis
    proof (cases "array_map (revive_item revive) v")
      case (Inl e)
      with Some Inr show ?thesis by (simp add: loadQueryHistory_def)
    next
      case r: (Inr parsed)
      then obtain items where v: "v = JArr items"
        by (cases v) (simp_all add: array_map_def)
      with r have "map_throwing (revive_item revive) items = Inr parsed"
        by (simp add: array_map_def)
      with Some Inr v r show ?thesis
        by (cases "s = []") (simp_all add: loadQueryHistory_def)
    qed
  qed
qed

text \<open>
  C9. \<^verbatim>\<open>loadQueryHistory\<close> never throws. When nothing is stored under the key, or what is
  stored is not valid JSON, it changes nothing, so that the history of a component that
  is being mounted stays empty. The history changes only when the stored text was parsed,
  to an array whose entries could all be read.
\<close>

theorem loadQueryHistory_total:
  "\<exists>w'. loadQueryHistory parse revive w = Inr w' \<and> fst w' = fst w \<and>
     ((localStorage (fst w) ''queryHistory'' = None \<or>
       (\<exists>s e. localStorage (fst w) ''queryHistory'' = Some s \<and> parse s = Inl e)) \<longrightarrow> w' = w) \<and>
     (queryHistory (snd w') \<noteq> queryHistory (snd w) \<longrightarrow>
        (\<exists>s items. localStorage (fst w) ''queryHistory'' = Some s \<and> parse s = Inr (JArr items) \<and>
            map_throwing (revive_item revive) items = Inr (queryHistory (snd w')))) \<and>
     ((localStorage b ''queryHistory'' = None \<or>
       (\<exists>s e. localStorage b ''queryHistory'' = Some s \<and> parse s = Inl e)) \<longrightarrow>
        mountQueryInterface parse revive b = Inr (b, initialQueryState) \<and>
        queryHistory initialQueryState = [])"
proof -
  have m: "(localStorage b ''queryHistory'' = None \<or>
       (\<exists>s e. localStorage b ''queryHistory'' = Some s \<and> parse s = Inl e)) \<longrightarrow>
        mountQueryInterface parse revive b = Inr (b, initialQueryState) \<and>
        queryHistory initialQueryState = []"
    using load_absent [of "(b, initialQueryState)" parse revive]
      load_invalid [of "(b, initialQueryState)" _ parse _ revive]
    by (auto simp: mountQueryInterface_def initialQueryState_def)
  from load_cases [of parse revive w] show ?thesis
  proof
    assume a: "loadQueryHistory parse revive w = Inr w"
    with m show ?thesis by simp
  next
    assume "\<exists>s items parsed. localStorage (fst w) ''queryHistory'' = Some s \<and> parse s = Inr (JArr items) \<and>
      map_throwing (revive_item revive) items = Inr parsed \<and>
      loadQueryHistory parse revive w = Inr (fst w, snd w\<lparr>queryHistory := parsed\<rparr>)"
    then obtain s items parsed where
      s: "localStorage (fst w) ''queryHistory'' = Some s" and p: "parse s = Inr (JArr items)" and
      mt: "map_throwing (revive_item revive) items = Inr parsed" and
      l: "loadQueryHistory parse revive w = Inr (fst w, snd w\<lparr>queryHistory := parsed\<rparr>)"
      by blast
    from s p mt l m show ?thesis by simp
  qed
qed

theorem loadQueryHistory_total_witness:
  "localStorage broken_store ''queryHistory'' = Some ''{bad'' \<and>
   demo_parse ''{bad'' = Inl (JsError ''SyntaxError'' []) \<and>
   loadQueryHistory demo_parse demo_revive (broken_store, demo_state) = Inr (broken_store, demo_state) \<and>
   mountQueryInterface demo_parse demo_revive broken_store = Inr (broken_store, initialQueryState)"
proof -
  have s: "localStorage broken_store ''queryHistory'' = Some ''{bad''"
    by (simp add: broken_store_def)
  have p: "demo_parse ''{bad'' = Inl (JsError ''SyntaxError'' [])"
    by (simp add: demo_parse_def)
  from s p loadQueryHistory_total [of demo_parse demo_revive "(broken_store, demo_state)" broken_store]
  show ?thesis by auto
qed

section \<open>Properties of the Upload Client\<close>

subsection \<open>A failed upload\<close>

lemma handleUpload_failure:
  assumes nb: "\<not> blank_upload (snd w)" and f: "is_failure resp"
  shows "handleUpload resp files_resp w =
     (fst w\<lparr>requests := requests (fst w) @
         [if uploadMode (snd w) = FileMode
          then upload_request (the (selectedFile (snd w))) (fileType (snd w))
          else youtube_request (youtubeUrl (snd w))]\<rparr>,
      snd w\<lparr>uploadStatus := ''Upload failed: '' @ upload_failure_text resp\<rparr>)"
proof (cases resp)
  case (Rejected e)
  with nb show ?thesis
    by (cases "uploadMode (snd w)")
       (auto simp: handleUpload_def blank_upload_def upload_outcome_def upload_failure_text_def Let_def)
next
  case (Response is_ok b)
  with f have "\<not> is_ok" by (simp add: is_failure_def)
  with Response nb show ?thesis
    by (cases "uploadMode (snd w)"; cases b)
       (auto simp: handleUpload_def blank_upload_def upload_outcome_def upload_failure_text_def Let_def)
qed

text \<open>
  C2. When an upload that was sent fails (the transport fails, or the status is not 2xx),
  the status line shows \<^verbatim>\<open>Upload failed:\<close> followed by the text of the failure (the
  exception, the server's \<^verbatim>\<open>error\<close> field, or \<^verbatim>\<open>Unknown error\<close>), so it no longer shows
  \<^verbatim>\<open>Uploading...\<close>; the POST is the only request issued: the file list is not fetched
  again, the list shown stays, and the parent's callback is not called.
\<close>

theorem failed_upload_no_refresh:
  "\<not> blank_upload (snd w) \<Longrightarrow> is_failure resp \<Longrightarrow>
   uploadStatus (snd (handleUpload resp files_resp w)) = ''Upload failed: '' @ upload_failure_text resp \<and>
   uploadStatus (snd (handleUpload resp files_resp w)) \<noteq> ''Uploading...'' \<and>
   requests (fst (handleUpload resp files_resp w)) =
     requests (fst w) @
       [if uploadMode (snd w) = FileMode
        then upload_request (the (selectedFile (snd w))) (fileType (snd w))
        else youtube_request (youtubeUrl (snd w))] \<and>
   files_request \<notin> set (drop (length (requests (fst w))) (requests (fst (handleUpload resp files_resp w)))) \<and>
   files (snd (handleUpload resp files_resp w)) = files (snd w) \<and>
   onUpload_calls (fst (handleUpload resp files_resp w)) = onUpload_calls (fst w)"
proof -
  assume nb: "\<not> blank_upload (snd w)" and f: "is_failure resp"
  note e = handleUpload_failure [OF nb f, of files_resp]
  show ?thesis
    unfolding e
    by (simp add: files_request_def upload_request_def youtube_request_def)
qed

theorem failed_upload_no_refresh_witness:
  "\<not> blank_upload (snd (empty_browser, demo_upload_state)) \<and> is_failure demo_upload_refusal \<and>
   uploadStatus (snd (handleUpload demo_upload_refusal demo_files_answer (empty_browser, demo_upload_state)))
     = ''Upload failed: too large'' \<and>
   requests (fst (handleUpload demo_upload_refusal demo_files_answer (empty_browser, demo_upload_state)))
     = [upload_request demo_file ''image''] \<and>
   files (snd (handleUpload demo_upload_refusal demo_files_answer (empty_browser, demo_upload_state))) = []"
proof -
  have h1: "\<not> blank_upload (snd (empty_browser, demo_upload_state))"
    by (simp add: blank_upload_def demo_upload_state_def initialUploadState_def)
  have h2: "is_failure demo_upload_refusal"
    by (simp add: is_failure_def demo_upload_refusal_def)
  show ?thesis
    using h1 h2 failed_upload_no_refresh [OF h1 h2, of demo_files_answer]
    by (simp add: upload_failure_text_def demo_upload_refusal_def string_or_def
        demo_upload_state_def initialUploadState_def empty_browser_def)
qed

subsection \<open>Blank input\<close>

lemma fetchFiles_status:
  "uploadStatus (snd (fetchFiles files_resp w)) = uploadStatus (snd w)"
  by (simp add: fetchFiles_def Let_def split: fetch_result.splits json_body.splits)

lemma upload_outcome_shape:
  "(\<And>result st. status_shape (on_ok result st)) \<Longrightarrow>
   status_shape (snd (upload_outcome resp files_resp on_ok w))"
  by (simp add: upload_outcome_def Let_def fetchFiles_status status_shape_def
      split: fetch_result.splits json_body.splits)

lemma handleUpload_shape:
  assumes e: "\<not> upload_disabled (snd w)"
  shows "status_shape (snd (handleUpload resp files_resp w))"
proof -
  let ?up = "\<lambda>result st. st\<lparr>uploadStatus := ''File uploaded successfully: '' @ template_string (u_filename result),
                                 selectedFile := None\<rparr>"
  let ?yt = "\<lambda>result st. st\<lparr>uploadStatus := ''YouTube video processing started: '' @ template_string (u_url result),
                                 youtubeUrl := []\<rparr>"
  have a: "status_shape (snd (upload_outcome resp files_resp ?up w1))" for w1
    by (rule upload_outcome_shape) (simp add: status_shape_def)
  have b: "status_shape (snd (upload_outcome resp files_resp ?yt w1))" for w1
    by (rule upload_outcome_shape) (simp add: status_shape_def)
  show ?thesis
  proof (cases "uploadMode (snd w)")
    case FileMode
    with e a show ?thesis by (auto simp: handleUpload_def upload_disabled_def Let_def)
  next
    case YoutubeMode
    with e b show ?thesis by (auto simp: handleUpload_def upload_disabled_def Let_def)
  qed
qed

lemma upload_step_shape:
  "status_shape (snd w) \<Longrightarrow> status_shape (snd (upload_step w ev))"
proof (cases ev)
  case (UploadClick resp files_resp)
  assume "status_shape (snd w)"
  with UploadClick show ?thesis by (simp add: handleUpload_shape)
next
  case (FileChange chosen)
  assume "status_shape (snd w)"
  with FileChange show ?thesis by (cases chosen) (simp_all add: handleFileChange_def status_shape_def)
qed (simp_all add: status_shape_def handleYoutubeUrlChange_def handleFileTypeChange_def)

lemma upload_steps_shape:
  "status_shape (snd w) \<Longrightarrow> status_shape (snd (foldl upload_step w evs))"
  by (induction evs arbitrary: w) (simp_all add: upload_step_shape)

text \<open>
  C3. For a blank input (no file selected in file mode, a URL of white space only in URL
  mode, a question of white space only) no request is issued: the upload button and the
  Ask button are disabled for it, and a click on them, or the Enter key in the question
  field, changes nothing; \<^verbatim>\<open>handleUpload\<close> and \<^verbatim>\<open>handleQuery\<close> themselves issue no request
  on it. Nothing is reported: whatever the user does with the mounted upload form, its
  status line never shows either prompt of the guard of \<^verbatim>\<open>handleUpload\<close>, which no click
  can reach.
\<close>

theorem blank_input_is_local_no_op:
  "(blank_upload (snd w) \<longrightarrow>
      upload_disabled (snd w) \<and>
      upload_step w (UploadClick resp files_resp) = w \<and>
      requests (fst (handleUpload resp files_resp w)) = requests (fst w)) \<and>
   (trim (query (snd (v_world v))) = [] \<longrightarrow>
      ask_disabled (snd (v_world v)) \<and>
      handleQuery stringify qresp i t (v_world v) = v_world v \<and>
      query_step stringify v AskClick = v \<and>
      query_step stringify v EnterKey = v) \<and>
   uploadStatus (snd (foldl upload_step (b, initialUploadState) evs)) \<noteq> ''Please select a file first.'' \<and>
   uploadStatus (snd (foldl upload_step (b, initialUploadState) evs)) \<noteq> ''Please enter a YouTube URL.''"
proof -
  have u: "blank_upload (snd w) \<longrightarrow>
      upload_disabled (snd w) \<and>
      upload_step w (UploadClick resp files_resp) = w \<and>
      requests (fst (handleUpload resp files_resp w)) = requests (fst w)"
    by (cases "uploadMode (snd w)")
       (auto simp: blank_upload_def upload_disabled_def handleUpload_def)
  have q: "trim (query (snd (v_world v))) = [] \<longrightarrow>
      ask_disabled (snd (v_world v)) \<and>
      handleQuery stringify qresp i t (v_world v) = v_world v \<and>
      query_step stringify v AskClick = v \<and>
      query_step stringify v EnterKey = v"
    by (simp add: ask_disabled_def handleQuery_def handleQuery_begin_def start_query_def)
  have "status_shape (snd (b, initialUploadState))"
    by (simp add: status_shape_def initialUploadState_def)
  then have "status_shape (snd (foldl upload_step (b, initialUploadState) evs))"
    by (rule upload_steps_shape)
  then have s: "uploadStatus (snd (foldl upload_step (b, initialUploadState) evs)) \<noteq> ''Please select a file first.'' \<and>
   uploadStatus (snd (foldl upload_step (b, initialUploadState) evs)) \<noteq> ''Please enter a YouTube URL.''"
    by (auto simp: status_shape_def)
  from u q s show ?thesis by blast
qed

theorem blank_input_is_local_no_op_witness:
  "blank_upload (snd (empty_browser, blank_url_state)) \<and>
   trim (query (snd (v_world blank_query_view))) = [] \<and>
   upload_disabled blank_url_state \<and>
   upload_step (empty_browser, blank_url_state) (UploadClick demo_upload_refusal demo_files_answer)
     = (empty_browser, blank_url_state) \<and>
   requests (fst (handleUpload demo_upload_refusal demo_files_answer (empty_browser, blank_url_state))) = [] \<and>
   requests (fst (handleQuery (\<lambda>h. []) demo_refusal 1 1 (v_world blank_query_view))) = [] \<and>
   query_step (\<lambda>h. []) blank_query_view EnterKey = blank_query_view \<and>
   query_step (\<lambda>h. []) blank_query_view AskClick = blank_query_view \<and>
   uploadStatus (snd (foldl upload_step (empty_browser, initialUploadState) demo_upload_events))
     \<noteq> ''Please select a file first.''"
proof -
  have h1: "blank_upload (snd (empty_browser, blank_url_state))"
    by (simp add: blank_upload_def blank_url_state_def trim_def isWhiteSpace_def)
  have h2: "trim (query (snd (v_world blank_query_view))) = []"
    by (simp add: blank_query_view_def initial_query_view_def trim_def isWhiteSpace_def)
  have e: "requests (fst (v_world blank_query_view)) = []"
    by (simp add: blank_query_view_def initial_query_view_def empty_browser_def)
  show ?thesis
    using h1 h2 e blank_input_is_local_no_op
      [of "(empty_browser, blank_url_state)" demo_upload_refusal demo_files_answer
          blank_query_view "\<lambda>h. []" demo_refusal 1 1 empty_browser demo_upload_events]
    by (simp add: empty_browser_def)
qed

subsection \<open>The content-type tag\<close>

lemma tag_ok_simps:
  "tag_ok files_request"
  "tag_ok (youtube_request u)"
  "tag_ok (upload_request f t) = (t \<in> set fileTypeOptions)"
  by (auto simp: tag_ok_def sent_tag_def files_request_def youtube_request_def upload_request_def)

lemma fetchFiles_requests:
  "requests (fst (fetchFiles files_resp w)) = requests (fst w) @ [files_request]"
  by (simp add: fetchFiles_def Let_def split: fetch_result.splits json_body.splits)

lemma fetchFiles_fileType:
  "fileType (snd (fetchFiles files_resp w)) = fileType (snd w)"
  by (simp add: fetchFiles_def Let_def split: fetch_result.splits json_body.splits)

lemma upload_outcome_requests:
  "requests (fst (upload_outcome resp files_resp on_ok w)) = requests (fst w) \<or>
   requests (fst (upload_outcome resp files_resp on_ok w)) = requests (fst w) @ [files_request]"
  by (simp add: upload_outcome_def Let_def fetchFiles_requests split: fetch_result.splits json_body.splits)

lemma upload_outcome_fileType:
  "(\<And>result st. fileType (on_ok result st) = fileType st) \<Longrightarrow>
   fileType (snd (upload_outcome resp files_resp on_ok w)) = fileType (snd w)"
  by (simp add: upload_outcome_def Let_def fetchFiles_fileType split: fetch_result.splits json_body.splits)

lemma handleUpload_fileType:
  "fileType (snd (handleUpload resp files_resp w)) = fileType (snd w)"
  by (simp add: handleUpload_def Let_def upload_outcome_fileType)

lemma handleUpload_tags:
  assumes "list_all tag_ok (requests (fst w))" and "fileType (snd w) \<in> set fileTypeOptions"
  shows "list_all tag_ok (requests (fst (handleUpload resp files_resp w)))"
proof -
  let ?up = "\<lambda>result st. st\<lparr>uploadStatus := ''File uploaded successfully: '' @ template_string (u_filename result),
                                 selectedFile := None\<rparr>"
  let ?yt = "\<lambda>result st. st\<lparr>uploadStatus := ''YouTube video processing started: '' @ template_string (u_url result),
                                 youtubeUrl := []\<rparr>"
  let ?w1 = "(fst w\<lparr>requests := requests (fst w) @
                     [upload_request (the (selectedFile (snd w))) (fileType (snd w))]\<rparr>,
              snd w\<lparr>uploadStatus := ''Uploading...''\<rparr>)"
  let ?w2 = "(fst w\<lparr>requests := requests (fst w) @ [youtube_request (youtubeUrl (snd w))]\<rparr>,
              snd w\<lparr>uploadStatus := ''Uploading...''\<rparr>)"
  have a: "list_all tag_ok (requests (fst (upload_outcome resp files_resp ?up ?w1)))"
    using upload_outcome_requests [of resp files_resp ?up ?w1] assms
    by (auto simp: tag_ok_simps)
  have b: "list_all tag_ok (requests (fst (upload_outcome resp files_resp ?yt ?w2)))"
    using upload_outcome_requests [of resp files_resp ?yt ?w2] assms
    by (auto simp: tag_ok_simps)
  from a b assms show ?thesis
    by (simp add: handleUpload_def Let_def)
qed

lemma upload_step_invariant:
  assumes "list_all tag_ok (requests (fst w))" and "fileType (snd w) \<in> set fileTypeOptions"
  shows "list_all tag_ok (requests (fst (upload_step w ev))) \<and>
         fileType (snd (upload_step w ev)) \<in> set fileTypeOptions"
proof (cases ev)
  case (UploadClick resp files_resp)
  with assms show ?thesis by (simp add: handleUpload_tags handleUpload_fileType)
next
  case (FileTypeChange i)
  with assms show ?thesis by (simp add: handleFileTypeChange_def)
next
  case (FileChange chosen)
  with assms show ?thesis by (cases chosen) (simp_all add: handleFileChange_def)
qed (use assms in \<open>simp_all add: handleYoutubeUrlChange_def\<close>)

lemma upload_steps_invariant:
  "list_all tag_ok (requests (fst w)) \<Longrightarrow> fileType (snd w) \<in> set fileTypeOptions \<Longrightarrow>
   list_all tag_ok (requests (fst (foldl upload_step w evs))) \<and>
   fileType (snd (foldl upload_step w evs)) \<in> set fileTypeOptions"
proof (induction evs arbitrary: w)
  case Nil
  then show ?case by simp
next
  case (Cons ev evs)
  from upload_step_invariant [OF Cons.prems, of ev] Cons.IH [of "upload_step w ev"]
  show ?case by simp
qed

text \<open>
  C6, as stated, fails: the select of the status-line variant has four options, and
  neither \<^verbatim>\<open>data\<close> nor \<^verbatim>\<open>data/spreadsheet\<close> is one of them.
\<close>

theorem data_not_selectable_counterexample:
  "''data'' \<notin> set fileTypeOptions \<and> ''data/spreadsheet'' \<notin> set fileTypeOptions \<and>
   length fileTypeOptions = 4"
  by (simp add: fileTypeOptions_def)

text \<open>
  C6, amended. Whatever the user does, starting from the mounted form, every request to
  the file endpoint carries a tag among document, image, video and audio, and every
  request to the URL endpoint carries the tag video. Each of the four is selectable: in
  file mode, choosing the \<open>i\<close>-th option sets the tag to it, and the upload that follows
  sends it.
\<close>

theorem submitted_content_type:
  "list_all tag_ok (requests b) \<Longrightarrow>
   list_all tag_ok (requests (fst (foldl upload_step (b, initialUploadState) evs))) \<and>
   fileType (snd (foldl upload_step (b, initialUploadState) evs)) \<in> set fileTypeOptions \<and>
   set fileTypeOptions = {''document'', ''image'', ''video'', ''audio''} \<and>
   (uploadMode (snd w) = FileMode \<and> selectedFile (snd w) = Some f \<and> i < length fileTypeOptions \<longrightarrow>
      fileType (snd (upload_step w (FileTypeChange i))) = fileTypeOptions ! i \<and>
      take (Suc (length (requests (fst w))))
        (requests (fst (upload_step (upload_step w (FileTypeChange i)) (UploadClick resp files_resp))))
        = requests (fst w) @ [upload_request f (fileTypeOptions ! i)]) \<and>
   (uploadMode (snd w) = YoutubeMode \<and> trim (youtubeUrl (snd w)) \<noteq> [] \<longrightarrow>
      take (Suc (length (requests (fst w))))
        (requests (fst (upload_step w (UploadClick resp files_resp))))
        = requests (fst w) @ [youtube_request (youtubeUrl (snd w))] \<and>
      sent_tag (youtube_request (youtubeUrl (snd w))) = Some ''video'')"
proof -
  assume b: "list_all tag_ok (requests b)"
  have i: "fileType (snd (b, initialUploadState)) \<in> set fileTypeOptions"
    by (simp add: initialUploadState_def fileTypeOptions_def)
  from b have b': "list_all tag_ok (requests (fst (b, initialUploadState)))" by simp
  note inv = upload_steps_invariant [OF b' i, of evs]
  have o: "set fileTypeOptions = {''document'', ''image'', ''video'', ''audio''}"
    by (simp add: fileTypeOptions_def)
  have s: "uploadMode (snd w) = FileMode \<and> selectedFile (snd w) = Some f \<and> i < length fileTypeOptions \<longrightarrow>
      fileType (snd (upload_step w (FileTypeChange i))) = fileTypeOptions ! i \<and>
      take (Suc (length (requests (fst w))))
        (requests (fst (upload_step (upload_step w (FileTypeChange i)) (UploadClick resp files_resp))))
        = requests (fst w) @ [upload_request f (fileTypeOptions ! i)]"
  proof (intro impI)
    assume a: "uploadMode (snd w) = FileMode \<and> selectedFile (snd w) = Some f \<and> i < length fileTypeOptions"
    let ?up = "\<lambda>result st. st\<lparr>uploadStatus := ''File uploaded successfully: '' @ template_string (u_filename result),
                                 selectedFile := None\<rparr>"
    let ?w1 = "(fst w\<lparr>requests := requests (fst w) @ [upload_request f (fileTypeOptions ! i)]\<rparr>,
                snd w\<lparr>fileType := fileTypeOptions ! i, uploadStatus := ''Uploading...''\<rparr>)"
    from upload_outcome_requests [of resp files_resp ?up ?w1]
    have "take (Suc (length (requests (fst w)))) (requests (fst (upload_outcome resp files_resp ?up ?w1)))
            = requests (fst w) @ [upload_request f (fileTypeOptions ! i)]"
      by auto
    with a show "fileType (snd (upload_step w (FileTypeChange i))) = fileTypeOptions ! i \<and>
      take (Suc (length (requests (fst w))))
        (requests (fst (upload_step (upload_step w (FileTypeChange i)) (UploadClick resp files_resp))))
        = requests (fst w) @ [upload_request f (fileTypeOptions ! i)]"
      by (simp add: handleFileTypeChange_def upload_disabled_def handleUpload_def Let_def)
  qed
  have y: "uploadMode (snd w) = YoutubeMode \<and> trim (youtubeUrl (snd w)) \<noteq> [] \<longrightarrow>
      take (Suc (length (requests (fst w))))
        (requests (fst (upload_step w (UploadClick resp files_resp))))
        = requests (fst w) @ [youtube_request (youtubeUrl (snd w))] \<and>
      sent_tag (youtube_request (youtubeUrl (snd w))) = Some ''video''"
  proof (intro impI)
    assume a: "uploadMode (snd w) = YoutubeMode \<and> trim (youtubeUrl (snd w)) \<noteq> []"
    let ?yt = "\<lambda>result st. st\<lparr>uploadStatus := ''YouTube video processing started: '' @ template_string (u_url result),
                                 youtubeUrl := []\<rparr>"
    let ?w2 = "(fst w\<lparr>requests := requests (fst w) @ [youtube_request (youtubeUrl (snd w))]\<rparr>,
                snd w\<lparr>uploadStatus := ''Uploading...''\<rparr>)"
    from upload_outcome_requests [of resp files_resp ?yt ?w2]
    have "take (Suc (length (requests (fst w)))) (requests (fst (upload_outcome resp files_resp ?yt ?w2)))
            = requests (fst w) @ [youtube_request (youtubeUrl (snd w))]"
      by auto
    with a show "take (Suc (length (requests (fst w))))
        (requests (fst (upload_step w (UploadClick resp files_resp))))
        = requests (fst w) @ [youtube_request (youtubeUrl (snd w))] \<and>
      sent_tag (youtube_request (youtubeUrl (snd w))) = Some ''video''"
      by (simp add: upload_disabled_def handleUpload_def Let_def sent_tag_def youtube_request_def)
  qed
  from inv o s y show ?thesis by simp
qed

theorem submitted_content_type_witness:
  "list_all tag_ok (requests empty_browser) \<and>
   map sent_tag (requests (fst (foldl upload_step (empty_browser, initialUploadState) demo_upload_events)))
     = [Some ''audio'', None, Some ''video'', None] \<and>
   list_all tag_ok (requests (fst (foldl upload_step (empty_browser, initialUploadState) demo_upload_events))) \<and>
   fileType (snd (foldl upload_step (empty_browser, initialUploadState) demo_upload_events)) = ''audio''"
proof -
  have h: "list_all tag_ok (requests empty_browser)"
    by (simp add: empty_browser_def)
  have r: "map sent_tag (requests (fst (foldl upload_step (empty_browser, initialUploadState) demo_upload_events)))
     = [Some ''audio'', None, Some ''video'', None]"
    by (simp add: demo_upload_events_def empty_browser_def initialUploadState_def handleFileChange_def
        handleFileTypeChange_def handleYoutubeUrlChange_def fileTypeOptions_def upload_disabled_def
        handleUpload_def upload_outcome_def demo_upload_ack_def demo_files_answer_def fetchFiles_def
        Let_def trim_def isWhiteSpace_def sent_tag_def upload_request_def youtube_request_def
        files_request_def)
  have t: "fileType (snd (foldl upload_step (empty_browser, initialUploadState) demo_upload_events)) = ''audio''"
    by (simp add: demo_upload_events_def empty_browser_def initialUploadState_def handleFileChange_def
        handleFileTypeChange_def handleYoutubeUrlChange_def fileTypeOptions_def upload_disabled_def
        handleUpload_def upload_outcome_def demo_upload_ack_def demo_files_answer_def fetchFiles_def
        Let_def trim_def isWhiteSpace_def)
  from h r t submitted_content_type [OF h, of demo_upload_events]
  show ?thesis by simp
qed

section \<open>Properties of the Market Panel and the market service\<close>

lemma loadMarketData_failed:
  assumes "call_failed (snd (getMarketStatus status_resp b)) \<or> call_failed (snd (getLiveData symbol live_resp b'))"
  shows "snd (loadMarketData symbol status_resp live_resp time_now (b, st))
           = st\<lparr>chart_error := Some ''Failed to load market data'', isLoading := False\<rparr>"
proof -
  have s: "snd (getLiveData symbol live_resp b'') = snd (getLiveData symbol live_resp b')" for b''
    by (simp add: getLiveData_def)
  from assms have "\<exists>e. promise_all (snd (getMarketStatus status_resp b))
                       (snd (getLiveData symbol live_resp (fst (getMarketStatus status_resp b)))) = Inl e"
    unfolding s [of "fst (getMarketStatus status_resp b)"]
    by (auto simp: promise_all_def call_failed_def split: sum.splits)
  then obtain e where "promise_all (snd (getMarketStatus status_resp b))
                       (snd (getLiveData symbol live_resp (fst (getMarketStatus status_resp b)))) = Inl e" ..
  then show ?thesis
    by (simp add: loadMarketData_def Let_def)
qed

text \<open>
  C5. When exactly one of the two calls of a refresh (market status, live data) fails, the
  status, the price and the time shown are what they were before the refresh: nothing of
  the call that succeeded is applied. The error text, which is the one banner of the
  panel, is set, the loading flag is cleared, and both requests have been issued.
\<close>

theorem one_failed_call_keeps_display:
  "call_failed (snd (getMarketStatus status_resp (fst w))) \<noteq>
     call_failed (snd (getLiveData symbol live_resp (fst w))) \<Longrightarrow>
   marketStatus (snd (loadMarketData symbol status_resp live_resp time_now w)) = marketStatus (snd w) \<and>
   currentPrice (snd (loadMarketData symbol status_resp live_resp time_now w)) = currentPrice (snd w) \<and>
   lastUpdate (snd (loadMarketData symbol status_resp live_resp time_now w)) = lastUpdate (snd w) \<and>
   chart_error (snd (loadMarketData symbol status_resp live_resp time_now w))
     = Some ''Failed to load market data'' \<and>
   \<not> isLoading (snd (loadMarketData symbol status_resp live_resp time_now w)) \<and>
   requests (fst (loadMarketData symbol status_resp live_resp time_now w))
     = requests (fst w) @ [get_request (baseUrl @ ''/market/status''),
                           get_request (baseUrl @ ''/market/live?symbol='' @ symbol)]"
proof -
  assume "call_failed (snd (getMarketStatus status_resp (fst w))) \<noteq>
     call_failed (snd (getLiveData symbol live_resp (fst w)))"
  then have "call_failed (snd (getMarketStatus status_resp (fst w))) \<or>
     call_failed (snd (getLiveData symbol live_resp (fst w)))" by blast
  from loadMarketData_failed [OF this, of time_now "snd w"]
  have "snd (loadMarketData symbol status_resp live_resp time_now w)
           = snd w\<lparr>chart_error := Some ''Failed to load market data'', isLoading := False\<rparr>"
    by simp
  moreover have "requests (fst (loadMarketData symbol status_resp live_resp time_now w))
     = requests (fst w) @ [get_request (baseUrl @ ''/market/status''),
                           get_request (baseUrl @ ''/market/live?symbol='' @ symbol)]"
    by (simp add: loadMarketData_def Let_def getMarketStatus_def getLiveData_def)
  ultimately show ?thesis by simp
qed

theorem one_failed_call_keeps_display_witness:
  "call_failed (snd (getMarketStatus demo_status_answer (fst (empty_browser, demo_chart_state)))) \<noteq>
     call_failed (snd (getLiveData ''XAUUSD'' demo_live_refusal (fst (empty_browser, demo_chart_state)))) \<and>
   snd (loadMarketData ''XAUUSD'' demo_status_answer demo_live_refusal ''10:00:00''
          (empty_browser, demo_chart_state))
     = demo_chart_state\<lparr>chart_error := Some ''Failed to load market data''\<rparr>"
proof -
  have h: "call_failed (snd (getMarketStatus demo_status_answer (fst (empty_browser, demo_chart_state)))) \<noteq>
     call_failed (snd (getLiveData ''XAUUSD'' demo_live_refusal (fst (empty_browser, demo_chart_state))))"
    by (simp add: call_failed_def getMarketStatus_def getLiveData_def demo_status_answer_def
        demo_live_refusal_def)
  show ?thesis
    using h one_failed_call_keeps_display [OF h, of "''10:00:00''"]
    by (simp add: demo_chart_state_def)
qed

text \<open>The refresh is not idle: when both calls succeed, what they returned is shown.\<close>

lemma both_calls_update_display:
  "snd (loadMarketData ''XAUUSD'' demo_status_answer
          (Response True (Json (JObj [(''current_price'', JNum 2351)]))) ''10:00:00''
          (empty_browser, demo_chart_state))
     = \<lparr>lastUpdate = ''10:00:00'', currentPrice = JNum 2351, marketStatus = JStr ''open'',
        isLoading = False, chart_error = None\<rparr>"
  by (simp add: loadMarketData_def Let_def getMarketStatus_def getLiveData_def promise_all_def
      show_market_data_def js_or_def demo_status_answer_def demo_chart_state_def)

text \<open>
  C10. For a 2xx answer whose body has no \<^verbatim>\<open>data\<close> (reading it gives \<^verbatim>\<open>undefined\<close>),
  \<^verbatim>\<open>getHistoricalData\<close> returns the empty array, not \<^verbatim>\<open>undefined\<close>; the same holds for
  \<^verbatim>\<open>getPredictions\<close> and \<^verbatim>\<open>predictions\<close>. For an answer that is not 2xx, whatever
  its body, both throw an error and return nothing.
\<close>

theorem missing_collection_gives_empty:
  "(get_prop body ''data'' = Inr JUndefined \<longrightarrow>
      snd (getHistoricalData symbol period interval (Response True (Json body)) b) = Inr (JArr [])) \<and>
   (get_prop body ''predictions'' = Inr JUndefined \<longrightarrow>
      snd (getPredictions symbol n (Response True (Json body)) b) = Inr (JArr [])) \<and>
   snd (getHistoricalData symbol period interval (Response False any_body) b)
     = Inl (JsError ''Error'' ''Failed to fetch historical data'') \<and>
   snd (getPredictions symbol n (Response False any_body) b)
     = Inl (JsError ''Error'' ''Failed to fetch predictions'')"
  by (simp add: getHistoricalData_def getPredictions_def js_or_def)

theorem missing_collection_gives_empty_witness:
  "get_prop (JObj [(''symbol'', JStr ''XAUUSD'')]) ''data'' = Inr JUndefined \<and>
   get_prop (JObj [(''symbol'', JStr ''XAUUSD'')]) ''predictions'' = Inr JUndefined \<and>
   snd (getHistoricalData ''XAUUSD'' ''1d'' ''1h'' (Response True (Json (JObj [(''symbol'', JStr ''XAUUSD'')])))
          empty_browser) = Inr (JArr []) \<and>
   snd (getPredictions ''XAUUSD'' 5 (Response True (Json (JObj [(''symbol'', JStr ''XAUUSD'')])))
          empty_browser) = Inr (JArr []) \<and>
   snd (getHistoricalData ''XAUUSD'' ''1d'' ''1h'' (Response False (NotJson (JsError ''SyntaxError'' [])))
          empty_browser) = Inl (JsError ''Error'' ''Failed to fetch historical data'')"
proof -
  have h1: "get_prop (JObj [(''symbol'', JStr ''XAUUSD'')]) ''data'' = Inr JUndefined" by simp
  have h2: "get_prop (JObj [(''symbol'', JStr ''XAUUSD'')]) ''predictions'' = Inr JUndefined" by simp
  show ?thesis
    using h1 h2 missing_collection_gives_empty
      [of "JObj [(''symbol'', JStr ''XAUUSD'')]" "''XAUUSD''" "''1d''" "''1h''" empty_browser 5
          "NotJson (JsError ''SyntaxError'' [])"]
    by simp
qed

text \<open>
  A body that is the JSON value \<^verbatim>\<open>null\<close> has no property to read, missing or not: the
  read itself throws.
\<close>

lemma null_body_throws:
  "snd (getHistoricalData symbol period interval (Response True (Json JNull)) b) = Inl type_error"
  by (simp add: getHistoricalData_def)

section \<open>One query at a time\<close>

text \<open>
  In QueryInterface.tsx the Ask button is disabled while a query is outstanding and the
  key handler checks the loading flag: whatever the user does and whenever answers
  arrive, at most one request is outstanding.
\<close>

lemma resume_loading: "\<not> loading (snd (handleQuery_resume stringify cl resp i t w))"
  by (simp add: handleQuery_resume_def Let_def)

lemma start_query_idle:
  "v_in_flight v = [] \<Longrightarrow> one_in_flight (start_query v)"
  by (simp add: start_query_def handleQuery_begin_def one_in_flight_def)

lemma query_step_one_in_flight:
  assumes "one_in_flight v"
  shows "one_in_flight (query_step stringify v ev)"
proof (cases ev)
  case EnterKey
  show ?thesis
  proof (cases "loading (snd (v_world v))")
    case True
    with EnterKey assms show ?thesis by simp
  next
    case False
    with assms have "v_in_flight v = []" by (auto simp: one_in_flight_def)
    with False EnterKey show ?thesis by (simp add: start_query_idle)
  qed
next
  case AskClick
  show ?thesis
  proof (cases "ask_disabled (snd (v_world v))")
    case True
    with AskClick assms show ?thesis by simp
  next
    case False
    then have "\<not> loading (snd (v_world v))" by (simp add: ask_disabled_def)
    with assms have "v_in_flight v = []" by (auto simp: one_in_flight_def)
    with False AskClick show ?thesis by (simp add: start_query_idle)
  qed
next
  case (Answered k resp i t)
  show ?thesis
  proof (cases "k < length (v_in_flight v)")
    case True
    with assms have "length (v_in_flight v) = 1" and "k = 0" by (auto simp: one_in_flight_def)
    with Answered show ?thesis by (simp add: one_in_flight_def)
  next
    case False
    with Answered assms show ?thesis by simp
  qed
next
  case (Typed s)
  with assms show ?thesis by (simp add: one_in_flight_def)
next
  case (SuggestedClick i)
  with assms show ?thesis by (auto simp: one_in_flight_def handleSuggestedQuestion_def)
next
  case HistoryToggle
  with assms show ?thesis by (simp add: one_in_flight_def)
next
  case (HistoryClick i)
  with assms show ?thesis by (auto simp: one_in_flight_def handleHistoryClick_def)
next
  case ClearClick
  with assms show ?thesis by (auto simp: one_in_flight_def clearHistory_def)
qed

lemma query_view_one_in_flight:
  "one_in_flight v \<Longrightarrow> one_in_flight (foldl (query_step stringify) v evs)"
  by (induction evs arbitrary: v) (simp_all add: query_step_one_in_flight)

lemma query_view_never_two_requests:
  "\<not> loading (snd w) \<Longrightarrow>
   length (v_in_flight (foldl (query_step stringify) (initial_query_view w) evs)) \<le> 1"
proof -
  assume "\<not> loading (snd w)"
  then have "one_in_flight (initial_query_view w)"
    by (simp add: one_in_flight_def initial_query_view_def)
  then have "one_in_flight (foldl (query_step stringify) (initial_query_view w) evs)"
    by (rule query_view_one_in_flight)
  then show ?thesis by (simp add: one_in_flight_def)
qed

text \<open>
  C8 does not hold in the query view of the section-based shell (App.tsx). Its button is
  disabled while a query is outstanding, but its key handler does not look at the loading
  flag: with the first request outstanding (the loading flag is set), a second Enter
  issues a second request, and two are outstanding.
\<close>

theorem app_shell_enter_starts_second_request:
  "app_loading (snd (a_world (foldl app_step (initial_app_view empty_browser)
      [Navigate QuerySection, AppTyped ''gold?'', AppEnterKey]))) \<and>
   a_in_flight (foldl app_step (initial_app_view empty_browser)
      [Navigate QuerySection, AppTyped ''gold?'', AppEnterKey, AppEnterKey])
     = [app_query_request ''gold?'', app_query_request ''gold?''] \<and>
   requests (fst (a_world (foldl app_step (initial_app_view empty_browser)
      [Navigate QuerySection, AppTyped ''gold?'', AppEnterKey, AppEnterKey])))
     = [app_query_request ''gold?'', app_query_request ''gold?'']"
  by (simp add: initial_app_view_def initialAppState_def empty_browser_def app_start_query_def
      app_handleQuery_begin_def)

section \<open>Successful queries in the running view\<close>

lemma start_query_current:
  "v_in_flight v = [] \<Longrightarrow> closures_current (start_query v)"
  by (simp add: start_query_def handleQuery_begin_def closures_current_def)

lemma start_query_history:
  "queryHistory (snd (v_world (start_query v))) = queryHistory (snd (v_world v))"
  by (simp add: start_query_def handleQuery_begin_def)

lemma query_step_current:
  assumes o: "one_in_flight v" and c: "closures_current v"
    and calm: "\<not> (ev = ClearClick \<and> v_in_flight v \<noteq> [])"
  shows "closures_current (query_step stringify v ev)"
proof (cases ev)
  case EnterKey
  show ?thesis
  proof (cases "loading (snd (v_world v))")
    case True
    with EnterKey c show ?thesis by simp
  next
    case False
    with o have "v_in_flight v = []" by (auto simp: one_in_flight_def)
    with False EnterKey show ?thesis by (simp add: start_query_current)
  qed
next
  case AskClick
  show ?thesis
  proof (cases "ask_disabled (snd (v_world v))")
    case True
    with AskClick c show ?thesis by simp
  next
    case False
    then have "\<not> loading (snd (v_world v))" by (simp add: ask_disabled_def)
    with o have "v_in_flight v = []" by (auto simp: one_in_flight_def)
    with False AskClick show ?thesis by (simp add: start_query_current)
  qed
next
  case (Answered k resp i t)
  show ?thesis
  proof (cases "k < length (v_in_flight v)")
    case True
    with o have "length (v_in_flight v) = 1" and "k = 0" by (auto simp: one_in_flight_def)
    with Answered show ?thesis by (simp add: closures_current_def)
  next
    case False
    with Answered c show ?thesis by simp
  qed
next
  case (Typed s)
  with c show ?thesis by (simp add: closures_current_def)
next
  case (SuggestedClick i)
  with c show ?thesis by (auto simp: closures_current_def handleSuggestedQuestion_def)
next
  case HistoryToggle
  with c show ?thesis by (simp add: closures_current_def)
next
  case (HistoryClick i)
  with c show ?thesis by (auto simp: closures_current_def handleHistoryClick_def)
next
  case ClearClick
  with calm have "v_in_flight v = []" by simp
  with ClearClick show ?thesis by (simp add: closures_current_def)
qed

lemma calm_run_invariant:
  "one_in_flight v \<Longrightarrow> closures_current v \<Longrightarrow> calm_run stringify v evs \<Longrightarrow>
   one_in_flight (foldl (query_step stringify) v evs) \<and>
   closures_current (foldl (query_step stringify) v evs)"
proof (induction evs arbitrary: v)
  case Nil
  then show ?case by simp
next
  case (Cons ev evs)
  from Cons.prems have calm: "\<not> (ev = ClearClick \<and> v_in_flight v \<noteq> [])"
    and rest: "calm_run stringify (query_step stringify v ev) evs" by simp_all
  have o: "one_in_flight (query_step stringify v ev)"
    using Cons.prems(1) by (rule query_step_one_in_flight)
  have c: "closures_current (query_step stringify v ev)"
    using Cons.prems(1,2) calm by (rule query_step_current)
  from Cons.IH [OF o c rest] show ?case by simp
qed

lemma answered_success:
  assumes k: "k < length (v_in_flight v)"
  shows "queryHistory (snd (v_world (query_step stringify v (Answered k (Response True (Json data)) i t))))
           = take 20 (newQuery i (c_query (v_in_flight v ! k)) data t # c_queryHistory (v_in_flight v ! k))"
    and "localStorage (fst (v_world (query_step stringify v (Answered k (Response True (Json data)) i t))))
             ''queryHistory''
           = Some (stringify (queryHistory (snd (v_world
                (query_step stringify v (Answered k (Response True (Json data)) i t))))))"
  using k by (simp_all add: handleQuery_resume_def saveQueryHistory_def Let_def)

lemma ask_events_run:
  assumes idle: "v_in_flight v = []" and nl: "\<not> loading (snd (v_world v))"
    and q: "trim (s_question a) \<noteq> []"
  shows "foldl (query_step stringify) v (ask_events a)
           = v\<lparr>v_world := ask stringify (v_world v) a, v_in_flight := []\<rparr>"
  using assms
  by (simp add: ask_events_def start_query_def handleQuery_begin_def ask_def handleQuery_def)

lemma ask_not_loading:
  "trim (s_question a) \<noteq> [] \<Longrightarrow> \<not> loading (snd (ask stringify w a))"
  by (simp add: ask_def handleQuery_def handleQuery_begin_def handleQuery_resume_def Let_def)

lemma asks_events_run:
  "v_in_flight v = [] \<Longrightarrow> \<not> loading (snd (v_world v)) \<Longrightarrow>
   \<forall>a \<in> set as. trim (s_question a) \<noteq> [] \<Longrightarrow>
   foldl (query_step stringify) v (concat (map ask_events as))
     = v\<lparr>v_world := foldl (ask stringify) (v_world v) as, v_in_flight := []\<rparr>"
proof (induction as arbitrary: v)
  case Nil
  then show ?case by simp
next
  case (Cons a as)
  let ?v = "v\<lparr>v_world := ask stringify (v_world v) a, v_in_flight := []\<rparr>"
  from Cons.prems have e: "foldl (query_step stringify) v (ask_events a) = ?v"
    by (simp add: ask_events_run)
  from Cons.prems have "\<not> loading (snd (v_world ?v))" by (simp add: ask_not_loading)
  with Cons.IH [of ?v] Cons.prems
  have "foldl (query_step stringify) ?v (concat (map ask_events as))
          = ?v\<lparr>v_world := foldl (ask stringify) (v_world ?v) as, v_in_flight := []\<rparr>"
    by simp
  with e show ?case by simp
qed

lemma asked_ids_distinct:
  "distinct (map s_id_now as) \<Longrightarrow> distinct (map h_id (take 20 (rev (map asked_record as))))"
proof -
  assume d: "distinct (map s_id_now as)"
  have m: "map h_id (map asked_record as) = map toString (map s_id_now as)"
    by (simp add: asked_record_def newQuery_def)
  have "inj toString" by (rule injI) (rule toString_inj)
  then have "inj_on toString (set (map s_id_now as))" by (rule inj_on_subset) simp
  with d have "distinct (map toString (map s_id_now as))" by (simp only: distinct_map)
  then have "distinct (map h_id (map asked_record as))" by (simp only: m)
  then have "distinct (rev (map h_id (map asked_record as)))" by simp
  then have "distinct (take 20 (rev (map h_id (map asked_record as))))" by (rule distinct_take)
  then show ?thesis by (simp only: take_map rev_map)
qed


text \<open>
  C1, as stated, fails in three ways. The id is the text of the clock reading, so two
  queries answered at the same reading get the same id. A 2xx answer whose body is not
  JSON goes to the \<^verbatim>\<open>catch\<close> branch and adds no record. And the record is put in front of
  the history that \<^verbatim>\<open>handleQuery\<close> captured when it was called, not of the one the view
  holds when the answer arrives: when Clear History is clicked in between, the view
  holds no entry, and the answer brings the cleared entry back behind the new one.
\<close>

theorem successful_query_counterexample:
  "map h_id (queryHistory (snd (foldl (ask (\<lambda>h. concat (map h_id h)))
       (empty_browser, initialQueryState) [demo_ask 5, demo_ask 5])))
     = [toString 5, toString 5] \<and>
   queryHistory (snd (handleQuery (\<lambda>h. concat (map h_id h))
       (Response True (NotJson (JsError ''SyntaxError'' []))) 18 18 (empty_browser, demo_state)))
     = [demo_item] \<and>
   queryHistory (snd (v_world (foldl (query_step (\<lambda>h. concat (map h_id h))) demo_history_view
       [Typed ''gold?'', EnterKey, ClearClick])))
     = [] \<and>
   map h_id (queryHistory (snd (v_world (foldl (query_step (\<lambda>h. concat (map h_id h))) demo_history_view
       [Typed ''gold?'', EnterKey, ClearClick, Answered 0 demo_answer 18 18]))))
     = [toString 18, ''17'']"
proof -
  have t: "trim ''gold?'' \<noteq> []" by (simp add: trim_def isWhiteSpace_def)
  have a: "map h_id (queryHistory (snd (foldl (ask (\<lambda>h. concat (map h_id h)))
       (empty_browser, initialQueryState) [demo_ask 5, demo_ask 5])))
     = [toString 5, toString 5]"
    using t by (simp add: ask_def demo_ask_def handleQuery_def handleQuery_begin_def
        handleQuery_resume_def saveQueryHistory_def newQuery_def Let_def initialQueryState_def)
  have b: "queryHistory (snd (handleQuery (\<lambda>h. concat (map h_id h))
       (Response True (NotJson (JsError ''SyntaxError'' []))) 18 18 (empty_browser, demo_state)))
     = [demo_item]"
    using t by (simp add: handleQuery_def handleQuery_begin_def handleQuery_resume_def demo_state_def
        Let_def)
  have c: "queryHistory (snd (v_world (foldl (query_step (\<lambda>h. concat (map h_id h))) demo_history_view
       [Typed ''gold?'', EnterKey, ClearClick])))
     = []"
    using t by (simp add: demo_history_view_def initial_query_view_def initialQueryState_def
        start_query_def handleQuery_begin_def clearHistory_def)
  have d: "map h_id (queryHistory (snd (v_world (foldl (query_step (\<lambda>h. concat (map h_id h))) demo_history_view
       [Typed ''gold?'', EnterKey, ClearClick, Answered 0 demo_answer 18 18]))))
     = [toString 18, ''17'']"
    using t by (simp add: demo_history_view_def initial_query_view_def initialQueryState_def
        start_query_def handleQuery_begin_def clearHistory_def demo_answer_def
        handleQuery_resume_def saveQueryHistory_def newQuery_def Let_def demo_item_def)
  from a b c d show ?thesis by blast
qed

text \<open>
  C1, amended. A successful query is a 2xx answer whose body is a JSON object. Its
  record has the decimal text of the clock reading for id. On every state that a run of events reaches
  without a click on Clear History while a query was outstanding, the answer puts the
  record in front of the history that the view holds, cuts the list to its first 20
  entries, and writes exactly that list under the key in local storage. So after any run
  of successful queries with nothing in between, on a view with nothing outstanding, the
  history is the first 20 of the new records, newest first, followed by the old ones,
  and the stored text is that of the list in memory; after more than 20 such queries the
  history is exactly the 20 newest records; and when the history was empty and the clock
  readings differ, so do the ids.
\<close>

theorem successful_query_prepends_and_persists:
  "v_in_flight v = [] \<Longrightarrow>
   (calm_run stringify v evs \<and> k < length (v_in_flight (foldl (query_step stringify) v evs)) \<longrightarrow>
      (let u = foldl (query_step stringify) v evs;
           u' = query_step stringify u (Answered k (Response True (Json data)) i t)
       in queryHistory (snd (v_world u'))
            = take 20 (newQuery i (c_query (v_in_flight u ! k)) data t # queryHistory (snd (v_world u))) \<and>
          localStorage (fst (v_world u')) ''queryHistory''
            = Some (stringify (queryHistory (snd (v_world u')))) \<and>
          length (queryHistory (snd (v_world u'))) \<le> 20 \<and>
          h_id (newQuery i (c_query (v_in_flight u ! k)) data t) = toString i)) \<and>
   (\<not> loading (snd (v_world v)) \<and> (\<forall>a \<in> set as. trim (s_question a) \<noteq> []) \<and> as \<noteq> [] \<longrightarrow>
      (let u = foldl (query_step stringify) v (concat (map ask_events as))
       in queryHistory (snd (v_world u))
            = take 20 (rev (map asked_record as) @ queryHistory (snd (v_world v))) \<and>
          localStorage (fst (v_world u)) ''queryHistory''
            = Some (stringify (queryHistory (snd (v_world u)))) \<and>
          (20 < length as \<longrightarrow>
             queryHistory (snd (v_world u)) = take 20 (rev (map asked_record as)) \<and>
             length (queryHistory (snd (v_world u))) = 20) \<and>
          (queryHistory (snd (v_world v)) = [] \<and> distinct (map s_id_now as) \<longrightarrow>
             distinct (map h_id (queryHistory (snd (v_world u)))))))"
proof -
  assume idle: "v_in_flight v = []"
  have A: "calm_run stringify v evs \<and> k < length (v_in_flight (foldl (query_step stringify) v evs)) \<longrightarrow>
      (let u = foldl (query_step stringify) v evs;
           u' = query_step stringify u (Answered k (Response True (Json data)) i t)
       in queryHistory (snd (v_world u'))
            = take 20 (newQuery i (c_query (v_in_flight u ! k)) data t # queryHistory (snd (v_world u))) \<and>
          localStorage (fst (v_world u')) ''queryHistory''
            = Some (stringify (queryHistory (snd (v_world u')))) \<and>
          length (queryHistory (snd (v_world u'))) \<le> 20 \<and>
          h_id (newQuery i (c_query (v_in_flight u ! k)) data t) = toString i)"
  proof (intro impI)
    assume h: "calm_run stringify v evs \<and> k < length (v_in_flight (foldl (query_step stringify) v evs))"
    let ?u = "foldl (query_step stringify) v evs"
    let ?u' = "query_step stringify ?u (Answered k (Response True (Json data)) i t)"
    from idle have o: "one_in_flight v" and c: "closures_current v"
      by (simp_all add: one_in_flight_def closures_current_def)
    from h have calm: "calm_run stringify v evs" and k: "k < length (v_in_flight ?u)" by simp_all
    from calm_run_invariant [OF o c calm] have cu: "closures_current ?u" by simp
    with k have cur: "c_queryHistory (v_in_flight ?u ! k) = queryHistory (snd (v_world ?u))"
      by (simp add: closures_current_def list_all_length)
    from answered_success(1) [OF k, of stringify data i t] cur
    have h1: "queryHistory (snd (v_world ?u'))
            = take 20 (newQuery i (c_query (v_in_flight ?u ! k)) data t # queryHistory (snd (v_world ?u)))"
      by simp
    have h2: "localStorage (fst (v_world ?u')) ''queryHistory''
            = Some (stringify (queryHistory (snd (v_world ?u'))))"
      using k by (rule answered_success(2))
    from h1 have h3: "length (queryHistory (snd (v_world ?u'))) \<le> 20" by simp
    have h4: "h_id (newQuery i (c_query (v_in_flight ?u ! k)) data t) = toString i"
      by (simp add: newQuery_def)
    from h1 h2 h3 h4 show "let u = ?u; u' = query_step stringify u (Answered k (Response True (Json data)) i t)
       in queryHistory (snd (v_world u'))
            = take 20 (newQuery i (c_query (v_in_flight u ! k)) data t # queryHistory (snd (v_world u))) \<and>
          localStorage (fst (v_world u')) ''queryHistory''
            = Some (stringify (queryHistory (snd (v_world u')))) \<and>
          length (queryHistory (snd (v_world u'))) \<le> 20 \<and>
          h_id (newQuery i (c_query (v_in_flight u ! k)) data t) = toString i"
      unfolding Let_def by blast
  qed
  have B: "\<not> loading (snd (v_world v)) \<and> (\<forall>a \<in> set as. trim (s_question a) \<noteq> []) \<and> as \<noteq> [] \<longrightarrow>
      (let u = foldl (query_step stringify) v (concat (map ask_events as))
       in queryHistory (snd (v_world u))
            = take 20 (rev (map asked_record as) @ queryHistory (snd (v_world v))) \<and>
          localStorage (fst (v_world u)) ''queryHistory''
            = Some (stringify (queryHistory (snd (v_world u)))) \<and>
          (20 < length as \<longrightarrow>
             queryHistory (snd (v_world u)) = take 20 (rev (map asked_record as)) \<and>
             length (queryHistory (snd (v_world u))) = 20) \<and>
          (queryHistory (snd (v_world v)) = [] \<and> distinct (map s_id_now as) \<longrightarrow>
             distinct (map h_id (queryHistory (snd (v_world u))))))"
  proof (intro impI)
    assume h: "\<not> loading (snd (v_world v)) \<and> (\<forall>a \<in> set as. trim (s_question a) \<noteq> []) \<and> as \<noteq> []"
    then have nl: "\<not> loading (snd (v_world v))" and q: "\<forall>a \<in> set as. trim (s_question a) \<noteq> []"
      and ne: "as \<noteq> []" by simp_all
    let ?u = "foldl (query_step stringify) v (concat (map ask_events as))"
    let ?h = "queryHistory (snd (foldl (ask stringify) (v_world v) as))"
    from asks_events_run [OF idle nl q, of stringify]
    have w: "v_world ?u = foldl (ask stringify) (v_world v) as" by simp
    have len: "length ?h \<le> 20" using q ne by (rule asks_length)
    have "take 20 ?h = take 20 (rev (map asked_record as) @ queryHistory (snd (v_world v)))"
      using q by (rule asks_history_take)
    with len have h1: "?h = take 20 (rev (map asked_record as) @ queryHistory (snd (v_world v)))" by simp
    have h2: "localStorage (fst (foldl (ask stringify) (v_world v) as)) ''queryHistory'' = Some (stringify ?h)"
      using q ne by (rule asks_storage)
    have h3: "20 < length as \<longrightarrow> ?h = take 20 (rev (map asked_record as)) \<and> length ?h = 20"
      using h1 by simp
    have h4: "queryHistory (snd (v_world v)) = [] \<and> distinct (map s_id_now as) \<longrightarrow> distinct (map h_id ?h)"
      using h1 asked_ids_distinct [of as] by simp
    from h1 h2 h3 h4 show "let u = ?u
       in queryHistory (snd (v_world u))
            = take 20 (rev (map asked_record as) @ queryHistory (snd (v_world v))) \<and>
          localStorage (fst (v_world u)) ''queryHistory''
            = Some (stringify (queryHistory (snd (v_world u)))) \<and>
          (20 < length as \<longrightarrow>
             queryHistory (snd (v_world u)) = take 20 (rev (map asked_record as)) \<and>
             length (queryHistory (snd (v_world u))) = 20) \<and>
          (queryHistory (snd (v_world v)) = [] \<and> distinct (map s_id_now as) \<longrightarrow>
             distinct (map h_id (queryHistory (snd (v_world u)))))"
      unfolding Let_def w by blast
  qed
  from A B show ?thesis by blast
qed


theorem successful_query_prepends_and_persists_witness:
  "v_in_flight demo_history_view = [] \<and>
   calm_run (\<lambda>h. concat (map h_id h)) demo_history_view demo_calm_events \<and>
   0 < length (v_in_flight (foldl (query_step (\<lambda>h. concat (map h_id h))) demo_history_view demo_calm_events)) \<and>
   \<not> loading (snd (v_world demo_history_view)) \<and>
   list_all (\<lambda>a. trim (s_question a) \<noteq> []) (map demo_ask [2..<23]) \<and>
   map demo_ask [2..<23] \<noteq> [] \<and>
   20 < length (map demo_ask [2..<23]) \<and>
   map h_id (queryHistory (snd (v_world (query_step (\<lambda>h. concat (map h_id h))
       (foldl (query_step (\<lambda>h. concat (map h_id h))) demo_history_view demo_calm_events)
       (Answered 0 demo_answer 18 18)))))
     = [toString 18, ''17''] \<and>
   map h_id (queryHistory (snd (v_world (foldl (query_step (\<lambda>h. concat (map h_id h))) demo_history_view
       (concat (map ask_events (map demo_ask [2..<23])))))))
     = map toString (rev [3..<23])"
proof -
  have t: "trim ''gold?'' \<noteq> []" by (simp add: trim_def isWhiteSpace_def)
  have i: "v_in_flight demo_history_view = []"
    by (simp add: demo_history_view_def initial_query_view_def)
  have u: "foldl (query_step (\<lambda>h. concat (map h_id h))) demo_history_view demo_calm_events
     = \<lparr>v_world = (empty_browser\<lparr>requests := [query_request ''gold?'']\<rparr>,
                   initialQueryState\<lparr>queryHistory := [demo_item], query := ''silver?'',
                      loading := True, showHistory := True\<rparr>),
        v_in_flight = [\<lparr>c_query = ''gold?'', c_queryHistory = [demo_item]\<rparr>]\<rparr>"
    using t by (simp add: demo_calm_events_def demo_history_view_def initial_query_view_def
        initialQueryState_def start_query_def handleQuery_begin_def empty_browser_def)
  have c: "calm_run (\<lambda>h. concat (map h_id h)) demo_history_view demo_calm_events"
    using t by (simp add: demo_calm_events_def demo_history_view_def initial_query_view_def
        initialQueryState_def start_query_def handleQuery_begin_def)
  have k: "0 < length (v_in_flight (foldl (query_step (\<lambda>h. concat (map h_id h))) demo_history_view demo_calm_events))"
    by (simp only: u) simp
  have nl: "\<not> loading (snd (v_world demo_history_view))"
    by (simp add: demo_history_view_def initial_query_view_def initialQueryState_def)
  have q: "\<forall>a \<in> set (map demo_ask [2..<23]). trim (s_question a) \<noteq> []"
    using t by (simp add: demo_ask_def)
  then have q': "list_all (\<lambda>a. trim (s_question a) \<noteq> []) (map demo_ask [2..<23])"
    by (simp only: list_all_iff)
  have ne: "map demo_ask [2..<23] \<noteq> []" by simp
  have h0: "queryHistory (snd (v_world demo_history_view)) = [demo_item]"
    by (simp add: demo_history_view_def initial_query_view_def)
  note th = successful_query_prepends_and_persists
    [OF i, where stringify = "\<lambda>h. concat (map h_id h)" and evs = demo_calm_events and k = 0
       and data = "\<lparr>r_answer = ''up'', r_sources = None, r_error = None\<rparr>" and i = 18 and t = 18
       and as = "map demo_ask [2..<23]"]
  from th c k have a: "map h_id (queryHistory (snd (v_world (query_step (\<lambda>h. concat (map h_id h))
       (foldl (query_step (\<lambda>h. concat (map h_id h))) demo_history_view demo_calm_events)
       (Answered 0 demo_answer 18 18)))))
     = [toString 18, ''17'']"
    unfolding Let_def demo_answer_def
    by (simp add: u newQuery_def demo_item_def)
  from th nl q ne have "queryHistory (snd (v_world (foldl (query_step (\<lambda>h. concat (map h_id h))) demo_history_view
       (concat (map ask_events (map demo_ask [2..<23]))))))
     = take 20 (rev (map asked_record (map demo_ask [2..<23])))"
    unfolding Let_def by simp
  then have b: "map h_id (queryHistory (snd (v_world (foldl (query_step (\<lambda>h. concat (map h_id h))) demo_history_view
       (concat (map ask_events (map demo_ask [2..<23])))))))
     = map toString (rev [3..<23])"
    by (simp add: asked_record_def newQuery_def demo_ask_def)
  from i c k nl q' ne a b show ?thesis by simp
qed

end
